theory Spec2Isabelle
  imports Complex_Main "HOL-Library.Sublist"
begin

section \<open>PIX Totalizer: usage gate, ledger operations, receipt pipeline, webhook signature\<close>

text \<open>
  A shallow embedding of the TypeScript sources \<^verbatim>\<open>database.ts\<close>, \<^verbatim>\<open>subscription.ts\<close>,
  \<^verbatim>\<open>vision.ts\<close>, \<^verbatim>\<open>payments.ts\<close> and of the two receipt handlers of \<^verbatim>\<open>bot.ts\<close>.

  Conventions of the embedding:
  \<^item> An instant (a JavaScript \<^verbatim>\<open>Date\<close>, a \<^verbatim>\<open>TIMESTAMPTZ\<close> column, an ISO string) is its
    number of milliseconds since the epoch, an \<open>int\<close>.
  \<^item> The local timezone of the process is a parameter \<open>tz\<close>: the offset from UTC that
    holds at each instant, and the offset at which each local clock reading is read
    back. Offsets may change (daylight saving); \<^verbatim>\<open>setDate\<close> and \<^verbatim>\<open>setHours\<close> work
    on the local reading, as ECMAScript defines them.
  \<^item> Every \<^verbatim>\<open>new Date()\<close> read during one call of an operation yields the same
    instant \<open>now\<close>, an argument of the operation.
  \<^item> The relational store is a record of its two tables, passed in and returned; rows
    are kept in insertion order. A query on the store succeeds unless said otherwise;
    a \<^verbatim>\<open>throw\<close> is the \<open>Inl\<close> branch of a sum, and leaves the store as it was
    before the call unless the caller is shown to keep an earlier write.
  \<^item> A monetary amount (a JavaScript number) is the exact rational that its decimal
    notation denotes; the \<^verbatim>\<open>amount\<close> column is \<^verbatim>\<open>DECIMAL(12, 2)\<close>: it rounds what
    is written to it to two decimals and rejects a value that does not fit.
\<close>

subsection \<open>Tables (database.ts, subscription.ts, setup.sql)\<close>

datatype PlanType = Free | Basico | Pro | Ultra

record Transaction =
  tx_id :: int
  tx_chat_id :: int
  amount :: rat
  bank_detected :: "string option"
  client_name :: "string option"
  telegram_file_id :: string
  raw_response :: string
  tx_created_at :: int

record Subscription =
  sub_id :: int
  sub_chat_id :: int
  plan :: PlanType
  transactions_used :: int
  period_start :: int
  period_end :: "int option"
  sub_created_at :: int

text \<open>
  The store: both tables and the two \<^verbatim>\<open>BIGSERIAL\<close> sequences that number their rows.
\<close>

record store =
  subscriptions :: "Subscription list"
  transactions :: "Transaction list"
  next_sub_id :: int
  next_tx_id :: int

text \<open>
  What the code throws: the \<^verbatim>\<open>error\<close> of a reply of the store, and the
  \<^verbatim>\<open>RangeError\<close> of Node's library.
\<close>

datatype js_error = StoreError | RangeError

subsection \<open>Plans (subscription.ts)\<close>

record PlanInfo =
  name :: string
  displayName :: string
  price :: int
  limit :: "int option"
  description :: string

definition GRACE_PERIOD_DAYS :: int where
  "GRACE_PERIOD_DAYS = 3"

definition MS_PER_DAY :: int where
  "MS_PER_DAY = 1000 * 60 * 60 * 24"

text \<open>The display strings are UTF-8; bytes outside ASCII are written by their code.\<close>

fun PLANS :: "PlanType \<Rightarrow> PlanInfo" where
  "PLANS Free = \<lparr>name = ''free'', displayName = ''Gr'' @ [CHR 0xC3, CHR 0xA1] @ ''tis'',
      price = 0, limit = Some 5, description = ''5 comprovantes/dia''\<rparr>"
| "PLANS Basico = \<lparr>name = ''basico'', displayName = ''B'' @ [CHR 0xC3, CHR 0xA1] @ ''sico'',
      price = 197, limit = Some 1000,
      description = ''1.000 comprovantes/m'' @ [CHR 0xC3, CHR 0xAA] @ ''s''\<rparr>"
| "PLANS Pro = \<lparr>name = ''pro'', displayName = ''Pro'',
      price = 349, limit = Some 3500,
      description = ''3.500 comprovantes/m'' @ [CHR 0xC3, CHR 0xAA] @ ''s''\<rparr>"
| "PLANS Ultra = \<lparr>name = ''ultra'', displayName = ''Ultra'',
      price = 697, limit = None, description = ''Comprovantes ilimitados''\<rparr>"

text \<open>
  \<^verbatim>\<open>planInfo.limit!\<close>: the non-null assertion is erased at run time; the value of a
  \<^verbatim>\<open>null\<close> limit is never read by the code below (the Ultra plan returns before).
\<close>

definition limit_of :: "PlanType \<Rightarrow> int" where
  "limit_of p = (case limit (PLANS p) of Some n \<Rightarrow> n | None \<Rightarrow> 0)"

subsection \<open>Local time (the \<^verbatim>\<open>Date\<close> object of ECMAScript)\<close>

text \<open>
  The timezone of the host, as ECMAScript reads it: \<open>LocalTZA_utc tz t\<close> is the offset
  of local time from UTC, in milliseconds, at the instant \<open>t\<close>
  (\<^verbatim>\<open>LocalTZA(t, true)\<close>); \<open>LocalTZA_local tz l\<close> is the offset at which the local
  clock reading \<open>l\<close> is read back as an instant (\<^verbatim>\<open>LocalTZA(l, false)\<close>; a reading
  that a clock change skips or repeats is given one offset by the host). A local clock
  reading is written as the number of milliseconds from 1970-01-01 00:00 on that clock.
\<close>

record timezone =
  LocalTZA_utc :: "int \<Rightarrow> int"
  LocalTZA_local :: "int \<Rightarrow> int"

definition LocalTime :: "timezone \<Rightarrow> int \<Rightarrow> int" where
  "LocalTime tz t = t + LocalTZA_utc tz t"

definition UTC :: "timezone \<Rightarrow> int \<Rightarrow> int" where
  "UTC tz l = l - LocalTZA_local tz l"

text \<open>
  \<^verbatim>\<open>d.setDate(d.getDate() + n)\<close> on a date of time value \<open>t\<close>: the local reading
  keeps its time of day and moves \<open>n\<close> calendar days
  (\<^verbatim>\<open>MakeDate(MakeDay(year, month, date + n), TimeWithinDay)\<close> is the local reading plus
  \<open>n\<close> times 86400000), and is read back as an instant.
\<close>

definition setDate_plus :: "timezone \<Rightarrow> int \<Rightarrow> int \<Rightarrow> int" where
  "setDate_plus tz t n = UTC tz (LocalTime tz t + n * MS_PER_DAY)"

text \<open>
  \<^verbatim>\<open>d.setHours(0, 0, 0, 0)\<close>: the local reading is cut down to the start of its
  day (\<^verbatim>\<open>MakeDate(Day(local), 0)\<close>) and read back as an instant.
\<close>

definition setHours_0 :: "timezone \<Rightarrow> int \<Rightarrow> int" where
  "setHours_0 tz t = UTC tz ((LocalTime tz t div MS_PER_DAY) * MS_PER_DAY)"

subsection \<open>Local midnight (database.ts)\<close>

definition getStartOfTodayISO :: "timezone \<Rightarrow> int \<Rightarrow> int" where
  "getStartOfTodayISO tz now = setHours_0 tz now"

subsection \<open>Subscription rows (subscription.ts)\<close>

text \<open>
  \<^verbatim>\<open>.eq("chat_id", chatId).single()\<close> yields the row when exactly one matches and
  \<^verbatim>\<open>null\<close> data otherwise.
\<close>

definition getSubscription :: "store \<Rightarrow> int \<Rightarrow> Subscription option" where
  "getSubscription db chatId =
     (case filter (\<lambda>s. sub_chat_id s = chatId) (subscriptions db) of
        [s] \<Rightarrow> Some s
      | _ \<Rightarrow> None)"

text \<open>
  The insert of \<^verbatim>\<open>{chat_id, plan: "free"}\<close> takes the column defaults of the table:
  a fresh id, a zero counter, \<^verbatim>\<open>NOW()\<close> for both timestamps and no period end. It
  violates the \<^verbatim>\<open>UNIQUE\<close> constraint on \<^verbatim>\<open>chat_id\<close>, and the function throws, when
  a row of the chat exists already.
\<close>

definition getOrCreateSubscription ::
  "int \<Rightarrow> store \<Rightarrow> int \<Rightarrow> js_error + (Subscription \<times> store)" where
  "getOrCreateSubscription now db chatId =
     (case getSubscription db chatId of
        Some sub \<Rightarrow> Inr (sub, db)
      | None \<Rightarrow>
          if \<exists>s \<in> set (subscriptions db). sub_chat_id s = chatId then Inl StoreError
          else
            let sub = \<lparr>sub_id = next_sub_id db, sub_chat_id = chatId, plan = Free,
                       transactions_used = 0, period_start = now, period_end = None,
                       sub_created_at = now\<rparr>
            in Inr (sub, db\<lparr>subscriptions := subscriptions db @ [sub],
                            next_sub_id := next_sub_id db + 1\<rparr>))"

text \<open>
  The messages of a decision are template strings; each is kept as the template's
  name with the values it interpolates:
  \<^item> \<open>ExpiredMsg d\<close>: \<^verbatim>\<open>Sua assinatura ${d} expirou. Plano rebaixado para Gratis.\<close>
  \<^item> \<open>GraceMsg g\<close>: \<^verbatim>\<open>Assinatura vencida! Renove em ${g} dias para manter acesso.\<close>
  \<^item> \<open>DailyLimitMsg u l\<close>: \<^verbatim>\<open>Limite diario atingido (${u}/${l})\<close>
  \<^item> \<open>MonthlyLimitMsg u l\<close>: \<^verbatim>\<open>Limite mensal atingido (${u}/${l})\<close>
\<close>

datatype Message =
    ExpiredMsg string
  | GraceMsg int
  | DailyLimitMsg int int
  | MonthlyLimitMsg int int

text \<open>
  An optional field is \<open>None\<close> when the object literal leaves it out.
  \<open>daysUntilExpiry\<close> is \<^verbatim>\<open>number | null\<close> when present.
\<close>

record CanProcessResult =
  allowed :: bool
  res_plan :: PlanType
  used :: int
  res_limit :: "int option"
  message :: "Message option"
  expired :: "bool option"
  inGracePeriod :: "bool option"
  daysUntilExpiry :: "int option option"

text \<open>
  \<^verbatim>\<open>gracePeriodEnd.setDate(gracePeriodEnd.getDate() + GRACE_PERIOD_DAYS)\<close> on a date
  made from the period end.
\<close>

definition isSubscriptionExpired :: "timezone \<Rightarrow> int \<Rightarrow> Subscription \<Rightarrow> bool" where
  "isSubscriptionExpired tz now sub =
     (case period_end sub of
        None \<Rightarrow> False
      | Some pe \<Rightarrow>
          if plan sub = Free then False
          else
            let gracePeriodEnd = setDate_plus tz pe GRACE_PERIOD_DAYS
            in now > gracePeriodEnd)"

definition isInGracePeriod :: "timezone \<Rightarrow> int \<Rightarrow> Subscription \<Rightarrow> bool" where
  "isInGracePeriod tz now sub =
     (case period_end sub of
        None \<Rightarrow> False
      | Some periodEnd \<Rightarrow>
          if plan sub = Free then False
          else
            let gracePeriodEnd = setDate_plus tz periodEnd GRACE_PERIOD_DAYS
            in now > periodEnd \<and> now \<le> gracePeriodEnd)"

text \<open>
  \<^verbatim>\<open>Math.ceil(diffMs / (1000 * 60 * 60 * 24))\<close>: the ceiling of the exact quotient.
  (The double-precision quotient has the same ceiling while it stays below \<open>2 ^ 27\<close>
  days, which covers every pair of instants a \<^verbatim>\<open>TIMESTAMPTZ\<close> column can hold
  together with a present-day clock.)
\<close>

definition getDaysUntilExpiry :: "int \<Rightarrow> Subscription \<Rightarrow> int option" where
  "getDaysUntilExpiry now sub =
     (case period_end sub of
        None \<Rightarrow> None
      | Some periodEnd \<Rightarrow>
          if plan sub = Free then None
          else
            let diffMs = periodEnd - now
            in Some \<lceil>(of_int diffMs :: rat) / of_int MS_PER_DAY\<rceil>)"

definition downgradeToFree :: "store \<Rightarrow> int \<Rightarrow> store" where
  "downgradeToFree db chatId =
     db\<lparr>subscriptions :=
          map (\<lambda>s. if sub_chat_id s = chatId
                    then s\<lparr>plan := Free, transactions_used := 0, period_end := None\<rparr>
                    else s)
              (subscriptions db)\<rparr>"

definition getTodayTransactionCount :: "timezone \<Rightarrow> int \<Rightarrow> store \<Rightarrow> int \<Rightarrow> int" where
  "getTodayTransactionCount tz now db chatId =
     (let todayISO = getStartOfTodayISO tz now
      in int (length (filter (\<lambda>t. tx_chat_id t = chatId \<and> tx_created_at t \<ge> todayISO)
                             (transactions db))))"

text \<open>
  The decision and the store it leaves. The two tests nested under
  \<^verbatim>\<open>if (plan !== "free")\<close> are written as conjunctions with it; the branches come in
  the order of the source.
\<close>

definition canProcess ::
  "timezone \<Rightarrow> int \<Rightarrow> store \<Rightarrow> int \<Rightarrow> js_error + (CanProcessResult \<times> store)" where
  "canProcess tz now db0 chatId =
     (case getOrCreateSubscription now db0 chatId of
        Inl e \<Rightarrow> Inl e
      | Inr (sub, db) \<Rightarrow>
          let plan = plan sub;
              planInfo = PLANS plan;
              dUE = getDaysUntilExpiry now sub
          in
          if plan \<noteq> Free \<and> isSubscriptionExpired tz now sub then
            let db' = downgradeToFree db chatId;
                todayCount = getTodayTransactionCount tz now db' chatId;
                freeLimit = limit_of Free
            in Inr (\<lparr>allowed = todayCount < freeLimit, res_plan = Free, used = todayCount,
                      res_limit = Some freeLimit,
                      message = Some (ExpiredMsg (displayName planInfo)),
                      expired = Some True, inGracePeriod = None, daysUntilExpiry = None\<rparr>, db')
          else if plan \<noteq> Free \<and> isInGracePeriod tz now sub then
            let graceDaysLeft = GRACE_PERIOD_DAYS + (case dUE of Some d \<Rightarrow> d | None \<Rightarrow> 0)
            in
            if plan = Ultra then
              Inr (\<lparr>allowed = True, res_plan = plan, used = transactions_used sub,
                     res_limit = None, message = Some (GraceMsg graceDaysLeft),
                     expired = None, inGracePeriod = Some True,
                     daysUntilExpiry = Some dUE\<rparr>, db)
            else
              let monthlyLimit = limit_of plan
              in Inr (\<lparr>allowed = transactions_used sub < monthlyLimit, res_plan = plan,
                        used = transactions_used sub, res_limit = Some monthlyLimit,
                        message = Some (GraceMsg graceDaysLeft),
                        expired = None, inGracePeriod = Some True,
                        daysUntilExpiry = Some dUE\<rparr>, db)
          else if plan = Ultra then
            Inr (\<lparr>allowed = True, res_plan = plan, used = transactions_used sub,
                   res_limit = None, message = None, expired = None, inGracePeriod = None,
                   daysUntilExpiry = Some dUE\<rparr>, db)
          else if plan = Free then
            let todayCount = getTodayTransactionCount tz now db chatId;
                dailyLimit = limit_of plan
            in
            if todayCount \<ge> dailyLimit then
              Inr (\<lparr>allowed = False, res_plan = plan, used = todayCount,
                     res_limit = Some dailyLimit,
                     message = Some (DailyLimitMsg todayCount dailyLimit),
                     expired = None, inGracePeriod = None, daysUntilExpiry = None\<rparr>, db)
            else
              Inr (\<lparr>allowed = True, res_plan = plan, used = todayCount,
                     res_limit = Some dailyLimit, message = None,
                     expired = None, inGracePeriod = None, daysUntilExpiry = None\<rparr>, db)
          else
            let monthlyLimit = limit_of plan
            in
            if transactions_used sub \<ge> monthlyLimit then
              Inr (\<lparr>allowed = False, res_plan = plan, used = transactions_used sub,
                     res_limit = Some monthlyLimit,
                     message = Some (MonthlyLimitMsg (transactions_used sub) monthlyLimit),
                     expired = None, inGracePeriod = None, daysUntilExpiry = Some dUE\<rparr>, db)
            else
              Inr (\<lparr>allowed = True, res_plan = plan, used = transactions_used sub,
                     res_limit = Some monthlyLimit, message = None,
                     expired = None, inGracePeriod = None, daysUntilExpiry = Some dUE\<rparr>, db))"

definition incrementUsage :: "int \<Rightarrow> store \<Rightarrow> int \<Rightarrow> js_error + store" where
  "incrementUsage now db0 chatId =
     (case getOrCreateSubscription now db0 chatId of
        Inl e \<Rightarrow> Inl e
      | Inr (sub, db) \<Rightarrow>
          if plan sub \<noteq> Free then
            Inr (db\<lparr>subscriptions :=
                      map (\<lambda>s. if sub_chat_id s = chatId
                                then s\<lparr>transactions_used := transactions_used sub + 1\<rparr>
                                else s)
                          (subscriptions db)\<rparr>)
          else Inr db)"

text \<open>
  \<^verbatim>\<open>.update({...}).neq("plan", "free").select()\<close> returns the rows it updated;
  the function returns how many they are.
\<close>

definition resetMonthlyUsage :: "int \<Rightarrow> store \<Rightarrow> int \<times> store" where
  "resetMonthlyUsage now db =
     (let data = map (\<lambda>s. s\<lparr>transactions_used := 0, period_start := now\<rparr>)
                     (filter (\<lambda>s. plan s \<noteq> Free) (subscriptions db))
      in (int (length data),
          db\<lparr>subscriptions :=
               map (\<lambda>s. if plan s \<noteq> Free
                         then s\<lparr>transactions_used := 0, period_start := now\<rparr>
                         else s)
                   (subscriptions db)\<rparr>))"

subsection \<open>Ledger operations (database.ts)\<close>

text \<open>
  The column \<^verbatim>\<open>amount DECIMAL(12, 2) NOT NULL\<close> of the table (setup.sql): a value
  written to it is rounded to two decimals, halves away from zero, and is rejected
  (\<open>None\<close>) when the rounded value has more than ten digits before the point.
\<close>

definition round_half_away :: "rat \<Rightarrow> int" where
  "round_half_away x = (if x \<ge> 0 then \<lfloor>x + 1 / 2\<rfloor> else - \<lfloor>- x + 1 / 2\<rfloor>)"

definition DECIMAL_12_2 :: "rat \<Rightarrow> rat option" where
  "DECIMAL_12_2 a =
     (let cents = round_half_away (a * 100)
      in if \<bar>cents\<bar> < 10 ^ 12 then Some (of_int cents / 100) else None)"

text \<open>
  \<open>insert_ok\<close> says whether the store accepts the insert otherwise; when the insert
  is not accepted, the \<^verbatim>\<open>error\<close> of the reply is thrown. The row takes its id from
  the sequence and \<^verbatim>\<open>NOW()\<close> as its creation time, and is returned as stored.
\<close>

definition saveTransaction ::
  "bool \<Rightarrow> int \<Rightarrow> store \<Rightarrow> int \<Rightarrow> rat \<Rightarrow> string option \<Rightarrow> string option \<Rightarrow> string \<Rightarrow> string
     \<Rightarrow> js_error + (Transaction \<times> store)" where
  "saveTransaction insert_ok now db chatId amount' bankDetected clientName telegramFileId rawResponse =
     (if \<not> insert_ok then Inl StoreError
      else
        (case DECIMAL_12_2 amount' of
           None \<Rightarrow> Inl StoreError
         | Some stored \<Rightarrow>
             let data = \<lparr>tx_id = next_tx_id db, tx_chat_id = chatId, amount = stored,
                         bank_detected = bankDetected, client_name = clientName,
                         telegram_file_id = telegramFileId, raw_response = rawResponse,
                         tx_created_at = now\<rparr>
             in Inr (data, db\<lparr>transactions := transactions db @ [data],
                              next_tx_id := next_tx_id db + 1\<rparr>)))"

definition isDuplicate :: "store \<Rightarrow> int \<Rightarrow> string \<Rightarrow> bool" where
  "isDuplicate db chatId telegramFileId =
     (let data = take 1 (filter (\<lambda>t. tx_chat_id t = chatId \<and> telegram_file_id t = telegramFileId)
                                (transactions db))
      in length data > 0)"

definition todayRows :: "timezone \<Rightarrow> int \<Rightarrow> store \<Rightarrow> int \<Rightarrow> Transaction list" where
  \<comment> \<open>\<^verbatim>\<open>.eq("chat_id", chatId).gte("created_at", todayISO)\<close>, in table order\<close>
  "todayRows tz now db chatId =
     (let todayISO = getStartOfTodayISO tz now
      in filter (\<lambda>t. tx_chat_id t = chatId \<and> tx_created_at t \<ge> todayISO) (transactions db))"

definition getTodayStats :: "timezone \<Rightarrow> int \<Rightarrow> store \<Rightarrow> int \<Rightarrow> rat \<times> int" where
  "getTodayStats tz now db chatId =
     (let data = todayRows tz now db chatId;
          total = foldl (\<lambda>sum t. sum + amount t) 0 data;
          count = int (length data)
      in (total, count))"

text \<open>
  \<^verbatim>\<open>.order("created_at", { ascending: true })\<close>: a stable sort of the matching rows
  by creation time (rows of equal time stay in table order).
\<close>

definition getTodayTransactions :: "timezone \<Rightarrow> int \<Rightarrow> store \<Rightarrow> int \<Rightarrow> Transaction list" where
  "getTodayTransactions tz now db chatId = sort_key tx_created_at (todayRows tz now db chatId)"

definition clearTodayTransactions :: "timezone \<Rightarrow> int \<Rightarrow> store \<Rightarrow> int \<Rightarrow> int \<times> store" where
  "clearTodayTransactions tz now db chatId =
     (let todayISO = getStartOfTodayISO tz now;
          data = filter (\<lambda>t. tx_chat_id t = chatId \<and> tx_created_at t \<ge> todayISO) (transactions db)
      in (int (length data),
          db\<lparr>transactions :=
               filter (\<lambda>t. \<not> (tx_chat_id t = chatId \<and> tx_created_at t \<ge> todayISO))
                      (transactions db)\<rparr>))"

text \<open>
  \<open>index\<close> is \<open>None\<close> for \<^verbatim>\<open>undefined\<close>. The delete is
  \<^verbatim>\<open>.delete().eq("id", targetTx.id)\<close>: it removes every row of that id.
\<close>

definition deleteTransactionByIndex ::
  "timezone \<Rightarrow> int \<Rightarrow> store \<Rightarrow> int \<Rightarrow> int option \<Rightarrow> Transaction option \<times> store" where
  "deleteTransactionByIndex tz now db chatId index =
     (let txs = sort_key tx_created_at (todayRows tz now db chatId)
      in if txs = [] then (None, db)
         else
           let targetIndex = (case index of None \<Rightarrow> int (length txs) - 1 | Some i \<Rightarrow> i - 1)
           in if targetIndex < 0 \<or> targetIndex \<ge> int (length txs) then (None, db)
              else
                let targetTx = txs ! nat targetIndex
                in (Some targetTx,
                    db\<lparr>transactions :=
                         filter (\<lambda>t. tx_id t \<noteq> tx_id targetTx) (transactions db)\<rparr>))"

text \<open>
  \<^verbatim>\<open>.order("created_at", { ascending: false }).limit(1).single()\<close>: the first row of the
  stable sort by descending creation time, \<^verbatim>\<open>null\<close> when there is none. The update
  is \<^verbatim>\<open>.update({ amount: newAmount }).eq("id", lastTx.id).select().single()\<close>, followed
  by \<^verbatim>\<open>if (error) throw error\<close>. The store reports an error, and changes nothing, when
  the column rejects the amount; \<^verbatim>\<open>single\<close> reports one unless exactly one row comes
  back (with distinct ids exactly one does). The row returned is the row as stored.
\<close>

definition updateLastTransactionAmount ::
  "timezone \<Rightarrow> int \<Rightarrow> store \<Rightarrow> int \<Rightarrow> rat \<Rightarrow> js_error + (Transaction option \<times> store)" where
  "updateLastTransactionAmount tz now db chatId newAmount =
     (case sort_key (\<lambda>t. - tx_created_at t) (todayRows tz now db chatId) of
        [] \<Rightarrow> Inr (None, db)
      | lastTx # _ \<Rightarrow>
          (case DECIMAL_12_2 newAmount of
             None \<Rightarrow> Inl StoreError
           | Some stored \<Rightarrow>
               (case map (\<lambda>t. t\<lparr>amount := stored\<rparr>)
                         (filter (\<lambda>t. tx_id t = tx_id lastTx) (transactions db)) of
                  [data] \<Rightarrow>
                    Inr (Some data,
                         db\<lparr>transactions :=
                              map (\<lambda>t. if tx_id t = tx_id lastTx then t\<lparr>amount := stored\<rparr> else t)
                                  (transactions db)\<rparr>)
                | _ \<Rightarrow> Inl StoreError)))"

subsection \<open>Webhook signature (payments.ts)\<close>

text \<open>\<^verbatim>\<open>String.prototype.split\<close> with a one-character separator.\<close>

fun split_on :: "char \<Rightarrow> string \<Rightarrow> string list" where
  "split_on c [] = [[]]"
| "split_on c (x # xs) =
     (if x = c then [] # split_on c xs
      else (case split_on c xs of
              w # ws \<Rightarrow> (x # w) # ws
            | [] \<Rightarrow> [[x]]))"

text \<open>
  The loop over the parts of the header: \<^verbatim>\<open>const [key, value] = part.split("=")\<close>
  takes the first two pieces (the second is \<^verbatim>\<open>undefined\<close> when there is one piece),
  and the pair is stored when both are non-empty.
\<close>

fun parseSignatureParts :: "string list \<Rightarrow> (string \<rightharpoonup> string) \<Rightarrow> (string \<rightharpoonup> string)" where
  "parseSignatureParts [] signatureParts = signatureParts"
| "parseSignatureParts (part # parts) signatureParts =
     (case split_on CHR ''='' part of
        key # value # _ \<Rightarrow>
          if key \<noteq> [] \<and> value \<noteq> []
          then parseSignatureParts parts (signatureParts(key \<mapsto> value))
          else parseSignatureParts parts signatureParts
      | _ \<Rightarrow> parseSignatureParts parts signatureParts)"

text \<open>
  \<^verbatim>\<open>crypto.timingSafeEqual\<close> throws a \<^verbatim>\<open>RangeError\<close> when its two buffers differ in
  byte length, and compares them otherwise.
\<close>

definition timingSafeEqual :: "string \<Rightarrow> string \<Rightarrow> js_error + bool" where
  "timingSafeEqual a b = (if length a \<noteq> length b then Inl RangeError else Inr (a = b))"

text \<open>
  \<open>secret\<close> is the environment variable \<^verbatim>\<open>MERCADO_PAGO_WEBHOOK_SECRET\<close>
  (\<open>None\<close> when unset). \<open>hmac key msg\<close> stands for
  \<^verbatim>\<open>crypto.createHmac("sha256", key).update(msg).digest("hex")\<close>, a function of
  Node's library and a parameter here.
\<close>

definition validateWebhookSignature ::
  "(string \<Rightarrow> string \<Rightarrow> string) \<Rightarrow> string option \<Rightarrow> string option \<Rightarrow> string option \<Rightarrow> string
     \<Rightarrow> js_error + bool" where
  "validateWebhookSignature hmac secret xSignature xRequestId dataId =
     (case secret of
        None \<Rightarrow> Inr True
      | Some MP_WEBHOOK_SECRET \<Rightarrow>
          if MP_WEBHOOK_SECRET = [] then Inr True
          else
            (case (xSignature, xRequestId) of
               (Some sig, Some rid) \<Rightarrow>
                 if sig = [] \<or> rid = [] then Inr False
                 else
                   let parts = split_on CHR '','' sig;
                       signatureParts = parseSignatureParts parts Map.empty
                   in (case (signatureParts ''ts'', signatureParts ''v1'') of
                         (Some ts, Some v1) \<Rightarrow>
                           if ts = [] \<or> v1 = [] then Inr False
                           else
                             let manifest = ''id:'' @ dataId @ '';request-id:'' @ rid
                                              @ '';ts:'' @ ts @ '';'';
                                 expectedSignature = hmac MP_WEBHOOK_SECRET manifest
                             in timingSafeEqual v1 expectedSignature
                       | _ \<Rightarrow> Inr False)
             | _ \<Rightarrow> Inr False))"

subsection \<open>Extraction (vision.ts)\<close>

text \<open>
  The object that \<^verbatim>\<open>JSON.parse\<close> makes of the model's reply, read at the four
  properties the code reads, with the types of \<^verbatim>\<open>ExtractionResult\<close>: a field is
  \<open>None\<close> when the property is \<^verbatim>\<open>null\<close> (or missing, for the strings).
\<close>

record Parsed =
  p_amount :: "rat option"
  p_bank :: "string option"
  p_clientName :: "string option"
  p_error :: "string option"

record ExtractionResult =
  ex_amount :: "rat option"
  ex_bank :: "string option"
  ex_clientName :: "string option"
  rawResponse :: string
  ex_error :: "string option"

datatype Model = HAIKU_MODEL | SONNET_MODEL

text \<open>
  What lies outside the program during the handling of one receipt:
  \<^item> \<open>download\<close>: the file path that \<^verbatim>\<open>getFile\<close> and \<^verbatim>\<open>fetch\<close> deliver, \<open>None\<close> when
    one of them throws;
  \<^item> \<open>api m\<close>: the outcome of \<^verbatim>\<open>anthropic.messages.create\<close> with model \<open>m\<close> under
    \<^verbatim>\<open>withRetry\<close>: the text of the reply (\<open>Inr\<close>), or the text of the last error once
    the three attempts have failed (\<open>Inl\<close>);
  \<^item> \<open>json_parse\<close>: \<^verbatim>\<open>JSON.parse\<close>, \<open>None\<close> when it throws;
  \<^item> \<open>insert_ok\<close>: whether the store accepts the insert of the new row.
\<close>

record world =
  download :: "string option"
  api :: "Model \<Rightarrow> string + string"
  json_parse :: "string \<Rightarrow> Parsed option"
  insert_ok :: bool

text \<open>\<^verbatim>\<open>x || null\<close> on a string or \<^verbatim>\<open>null\<close>: the empty string is falsy.\<close>

definition or_null :: "string option \<Rightarrow> string option" where
  "or_null x = (case x of Some s \<Rightarrow> (if s = [] then None else Some s) | None \<Rightarrow> None)"

definition parseExtractionResponse :: "world \<Rightarrow> string \<Rightarrow> ExtractionResult" where
  "parseExtractionResponse w responseText =
     (case json_parse w responseText of
        Some parsed \<Rightarrow>
          \<lparr>ex_amount = p_amount parsed, ex_bank = or_null (p_bank parsed),
           ex_clientName = or_null (p_clientName parsed), rawResponse = responseText,
           ex_error = p_error parsed\<rparr>
      | None \<Rightarrow>
          \<lparr>ex_amount = None, ex_bank = None, ex_clientName = None, rawResponse = responseText,
           ex_error = Some ''Failed to parse response''\<rparr>)"

definition extractWithModel :: "world \<Rightarrow> Model \<Rightarrow> string + ExtractionResult" where
  "extractWithModel w model =
     (case api w model of
        Inl err \<Rightarrow> Inl err
      | Inr responseText \<Rightarrow> Inr (parseExtractionResponse w responseText))"

definition extractPixData :: "world \<Rightarrow> string \<Rightarrow> ExtractionResult" where
  "extractPixData w mediaType =
     (let isPdf = (mediaType = ''application/pdf'');
          caught = (\<lambda>err. \<lparr>ex_amount = None, ex_bank = None, ex_clientName = None,
                           rawResponse = err, ex_error = Some ''API call failed''\<rparr>)
      in if isPdf then
           (case extractWithModel w SONNET_MODEL of Inl err \<Rightarrow> caught err | Inr r \<Rightarrow> r)
         else
           (case extractWithModel w HAIKU_MODEL of
              Inl err \<Rightarrow> caught err
            | Inr haikusResult \<Rightarrow>
                if ex_amount haikusResult \<noteq> None then haikusResult
                else
                  (case extractWithModel w SONNET_MODEL of
                     Inl err \<Rightarrow> caught err
                   | Inr sonnetResult \<Rightarrow> sonnetResult)))"

definition extractPixAmount :: "world \<Rightarrow> string \<Rightarrow> ExtractionResult" where
  "extractPixAmount w mediaType = extractPixData w mediaType"

definition extractFromPdf :: "world \<Rightarrow> ExtractionResult" where
  "extractFromPdf w = extractPixData w ''application/pdf''"

subsection \<open>Receipt handlers (bot.ts, summary.ts)\<close>

text \<open>
  The texts sent to the chat, each kept as the name of its template with the values
  it interpolates:
  \<^item> \<open>LimitReply m p e\<close>: the refusal of the gate, with the decision's message, the
    plan's display name and the renewal line (\<open>e\<close>: the decision is flagged expired);
  \<^item> \<open>GraceReply m p\<close>: the grace-period warning;
  \<^item> \<open>DuplicateReply\<close>: \<^verbatim>\<open>Este comprovante ja foi registrado.\<close>
  \<^item> \<open>ProcessingReply\<close>: \<^verbatim>\<open>Processando comprovante...\<close>
  \<^item> \<open>NoAmountReply e\<close>: \<^verbatim>\<open>Nao consegui identificar o valor.\<close> and the extraction's error;
  \<^item> \<open>RunningTotalReply a b c total count\<close>: the running total of \<^verbatim>\<open>getRunningTotalMessage\<close>;
  \<^item> \<open>ErrorReply\<close>: \<^verbatim>\<open>Erro ao processar o comprovante. Tente novamente.\<close>
  \<^item> \<open>EditUsageReply\<close>: \<^verbatim>\<open>Use: /editar 150.00\<close>
  \<^item> \<open>InvalidAmountReply\<close>: \<^verbatim>\<open>Valor invalido. Use: /editar 150.00\<close>
  \<^item> \<open>EditedReply a total count\<close>: the new amount and the summary of the day;
  \<^item> \<open>NothingToEditReply\<close>: \<^verbatim>\<open>Nenhuma transacao para editar hoje.\<close>
  Sending a text succeeds.
\<close>

datatype Reply =
    LimitReply "Message option" PlanType bool
  | GraceReply Message PlanType
  | DuplicateReply
  | ProcessingReply
  | NoAmountReply "string option"
  | RunningTotalReply rat "string option" "string option" rat int
  | ErrorReply
  | EditUsageReply
  | InvalidAmountReply
  | EditedReply rat rat int
  | NothingToEditReply

definition getRunningTotalMessage ::
  "timezone \<Rightarrow> int \<Rightarrow> store \<Rightarrow> int \<Rightarrow> rat \<Rightarrow> string option \<Rightarrow> string option \<Rightarrow> Reply" where
  "getRunningTotalMessage tz now db chatId justAddedAmount bank clientName =
     (case getTodayStats tz now db chatId of
        (total', count') \<Rightarrow> RunningTotalReply justAddedAmount bank clientName total' count')"

text \<open>
  \<open>photos\<close>: the file ids of \<^verbatim>\<open>ctx.message.photo\<close> (empty when there is none).
  The result is the list of texts sent and the store afterwards; \<open>Inl\<close> when the
  handler throws (the gate's store error, thrown before \<^verbatim>\<open>try\<close>). Every \<^verbatim>\<open>throw\<close>
  inside \<^verbatim>\<open>try\<close> is caught and answered with \<open>ErrorReply\<close>; the store keeps what was
  written before the throw.
\<close>

definition processImage ::
  "timezone \<Rightarrow> int \<Rightarrow> world \<Rightarrow> store \<Rightarrow> string list \<Rightarrow> int \<Rightarrow> js_error + (Reply list \<times> store)" where
  "processImage tz now w db photos chatId =
     (if photos = [] then Inr ([], db)
      else
        (case canProcess tz now db chatId of
           Inl e \<Rightarrow> Inl e
         | Inr (check, db1) \<Rightarrow>
             if \<not> allowed check then
               Inr ([LimitReply (message check) (res_plan check) (expired check = Some True)], db1)
             else
               let warn = (case (inGracePeriod check, message check) of
                             (Some True, Some m) \<Rightarrow> [GraceReply m (res_plan check)]
                           | _ \<Rightarrow> []);
                   fileId = last photos
               in
               if isDuplicate db1 chatId fileId then Inr (warn @ [DuplicateReply], db1)
               else
                 (case download w of
                    None \<Rightarrow> Inr (warn @ [ProcessingReply, ErrorReply], db1)
                  | Some filePath \<Rightarrow>
                      let mediaType = (if suffix ''.png'' filePath then ''image/png''
                                       else ''image/jpeg'');
                          result = extractPixAmount w mediaType
                      in
                      (case ex_amount result of
                         None \<Rightarrow>
                           Inr (warn @ [ProcessingReply, NoAmountReply (or_null (ex_error result))],
                                db1)
                       | Some a \<Rightarrow>
                           (case saveTransaction (insert_ok w) now db1 chatId a (ex_bank result)
                                   (ex_clientName result) fileId (rawResponse result) of
                              Inl e \<Rightarrow> Inr (warn @ [ProcessingReply, ErrorReply], db1)
                            | Inr (row, db2) \<Rightarrow>
                                (case incrementUsage now db2 chatId of
                                   Inl e \<Rightarrow> Inr (warn @ [ProcessingReply, ErrorReply], db2)
                                 | Inr db3 \<Rightarrow>
                                     Inr (warn @ [ProcessingReply,
                                            getRunningTotalMessage tz now db3 chatId a
                                              (ex_bank result) (ex_clientName result)],
                                          db3)))))))"

text \<open>\<open>doc\<close>: the file id of \<^verbatim>\<open>ctx.message.document\<close>, \<open>None\<close> when there is none.\<close>

definition processDocument ::
  "timezone \<Rightarrow> int \<Rightarrow> world \<Rightarrow> store \<Rightarrow> string option \<Rightarrow> string \<Rightarrow> int
     \<Rightarrow> js_error + (Reply list \<times> store)" where
  "processDocument tz now w db doc mimeType chatId =
     (case doc of
        None \<Rightarrow> Inr ([], db)
      | Some fileId \<Rightarrow>
        (case canProcess tz now db chatId of
           Inl e \<Rightarrow> Inl e
         | Inr (check, db1) \<Rightarrow>
             if \<not> allowed check then
               Inr ([LimitReply (message check) (res_plan check) (expired check = Some True)], db1)
             else
               let warn = (case (inGracePeriod check, message check) of
                             (Some True, Some m) \<Rightarrow> [GraceReply m (res_plan check)]
                           | _ \<Rightarrow> [])
               in
               if isDuplicate db1 chatId fileId then Inr (warn @ [DuplicateReply], db1)
               else
                 (case download w of
                    None \<Rightarrow> Inr (warn @ [ProcessingReply, ErrorReply], db1)
                  | Some filePath \<Rightarrow>
                      let result = (if mimeType = ''application/pdf'' then extractFromPdf w
                                    else extractPixAmount w mimeType)
                      in
                      (case ex_amount result of
                         None \<Rightarrow>
                           Inr (warn @ [ProcessingReply, NoAmountReply (or_null (ex_error result))],
                                db1)
                       | Some a \<Rightarrow>
                           (case saveTransaction (insert_ok w) now db1 chatId a (ex_bank result)
                                   (ex_clientName result) fileId (rawResponse result) of
                              Inl e \<Rightarrow> Inr (warn @ [ProcessingReply, ErrorReply], db1)
                            | Inr (row, db2) \<Rightarrow>
                                (case incrementUsage now db2 chatId of
                                   Inl e \<Rightarrow> Inr (warn @ [ProcessingReply, ErrorReply], db2)
                                 | Inr db3 \<Rightarrow>
                                     Inr (warn @ [ProcessingReply,
                                            getRunningTotalMessage tz now db3 chatId a
                                              (ex_bank result) (ex_clientName result)],
                                          db3)))))))"

text \<open>
  The handler of \<^verbatim>\<open>/editar\<close>. \<open>args\<close> is the text after the command (empty when
  there is none). \<open>parseFloat\<close> is the JavaScript function, a parameter here, \<open>None\<close>
  for \<^verbatim>\<open>NaN\<close>. \<^verbatim>\<open>args.replace(",", ".")\<close> replaces the first comma, and
  \<^verbatim>\<open>.replace(/[^\d.]/g, "")\<close> keeps the digits and the dots. A throw of the update
  leaves the handler.
\<close>

fun replace_first :: "char \<Rightarrow> char \<Rightarrow> string \<Rightarrow> string" where
  "replace_first a b [] = []"
| "replace_first a b (c # cs) = (if c = a then b # cs else c # replace_first a b cs)"

definition editar ::
  "(string \<Rightarrow> rat option) \<Rightarrow> timezone \<Rightarrow> int \<Rightarrow> store \<Rightarrow> int \<Rightarrow> string
     \<Rightarrow> js_error + (Reply list \<times> store)" where
  "editar parseFloat tz now db chatId args =
     (if args = [] then Inr ([EditUsageReply], db)
      else
        let cleanAmount = filter (\<lambda>c. c \<in> set ''0123456789.'')
                                 (replace_first CHR '','' CHR ''.'' args);
            newAmount = parseFloat cleanAmount
        in (case newAmount of
              None \<Rightarrow> Inr ([InvalidAmountReply], db)
            | Some a \<Rightarrow>
                if a \<le> 0 then Inr ([InvalidAmountReply], db)
                else
                  (case updateLastTransactionAmount tz now db chatId a of
                     Inl e \<Rightarrow> Inl e
                   | Inr (None, db') \<Rightarrow> Inr ([NothingToEditReply], db')
                   | Inr (Some updated, db') \<Rightarrow>
                       (case getTodayStats tz now db' chatId of
                          (total', count') \<Rightarrow> Inr ([EditedReply a total' count'], db')))))"

subsection \<open>Well-formed ledgers\<close>

text \<open>
  What the primary key and the sequence of the \<^verbatim>\<open>transactions\<close> table guarantee:
  ids are distinct and below the next value of the sequence.
\<close>

definition ledger_ok :: "store \<Rightarrow> bool" where
  "ledger_ok db \<longleftrightarrow>
     distinct (map tx_id (transactions db))
     \<and> list_all (\<lambda>t. tx_id t < next_tx_id db) (transactions db)"

subsection \<open>Example data\<close>

definition day :: int where
  "day = 86400000"

definition hour :: int where
  "hour = 3600000"

text \<open>A timezone whose offset from UTC never changes.\<close>

definition fixed_zone :: "int \<Rightarrow> timezone" where
  "fixed_zone off = \<lparr>LocalTZA_utc = (\<lambda>t. off), LocalTZA_local = (\<lambda>l. off)\<rparr>"


definition sub_row :: "int \<Rightarrow> PlanType \<Rightarrow> int \<Rightarrow> int option \<Rightarrow> Subscription" where
  "sub_row chatId p n pe =
     \<lparr>sub_id = chatId, sub_chat_id = chatId, plan = p, transactions_used = n,
      period_start = 0, period_end = pe, sub_created_at = 0\<rparr>"

definition tx_row :: "int \<Rightarrow> int \<Rightarrow> rat \<Rightarrow> string \<Rightarrow> int \<Rightarrow> Transaction" where
  "tx_row i chatId a fileId created =
     \<lparr>tx_id = i, tx_chat_id = chatId, amount = a, bank_detected = None, client_name = None,
      telegram_file_id = fileId, raw_response = [], tx_created_at = created\<rparr>"

definition mk_store :: "Subscription list \<Rightarrow> Transaction list \<Rightarrow> store" where
  "mk_store subs txs =
     \<lparr>subscriptions = subs, transactions = txs, next_sub_id = 1000, next_tx_id = 1000\<rparr>"

text \<open>Five receipts of chat 7 on the day that starts at instant 0, in UTC.\<close>

definition five_today :: "Transaction list" where
  "five_today = [tx_row 1 7 10 ''a'' 10, tx_row 2 7 20 ''b'' 20, tx_row 3 7 30 ''c'' 30,
                 tx_row 4 7 40 ''d'' 40, tx_row 5 7 50 ''e'' 50]"

text \<open>
  A ledger read on a clock three hours behind UTC at the instant \<open>100000000\<close>
  (00:46:40 on the local clock, second day of 1970): the local day started at the
  instant \<open>97200000\<close>. Chat 7 has one row from before that midnight and three rows after
  it, not in order of creation; chat 8 has a row after it and a row before it.
\<close>

definition mixed_ledger :: "Transaction list" where
  "mixed_ledger =
     [tx_row 1 7 10 ''a'' 97100000, tx_row 2 7 20 ''b'' 97300000, tx_row 3 8 30 ''c'' 97500000,
      tx_row 4 7 40 ''d'' 99000000, tx_row 5 7 50 ''e'' 98000000, tx_row 6 8 60 ''f'' 50000000]"

text \<open>
  The same clock and day: five rows of chat 7 after midnight, two before, and rows of
  chat 8.
\<close>

definition busy_ledger :: "Transaction list" where
  "busy_ledger =
     [tx_row 1 7 10 ''a'' 97100000, tx_row 2 7 20 ''b'' 97200000, tx_row 3 8 30 ''c'' 97500000,
      tx_row 4 7 40 ''d'' 97300000, tx_row 5 7 50 ''e'' 98000000, tx_row 6 8 60 ''f'' 98500000,
      tx_row 7 7 70 ''g'' 99000000, tx_row 8 7 80 ''h'' 99500000, tx_row 9 7 90 ''i'' 40000000]"


text \<open>
  A world in which the download succeeds, both models reply with the text \<open>txt\<close>,
  \<^verbatim>\<open>JSON.parse\<close> reads \<open>txt\<close> as \<open>parsed\<close>, and the store accepts the insert.
\<close>

definition ocr_world :: "string \<Rightarrow> Parsed \<Rightarrow> world" where
  "ocr_world txt parsed =
     \<lparr>download = Some ''photos/file_1.jpg'', api = (\<lambda>m. Inr txt),
      json_parse = (\<lambda>t. if t = txt then Some parsed else None), insert_ok = True\<rparr>"

definition amount_only :: "rat option \<Rightarrow> Parsed" where
  "amount_only a = \<lparr>p_amount = a, p_bank = None, p_clientName = None, p_error = None\<rparr>"

definition negative_reply :: string where
  \<open>negative_reply = ''{"amount": -150, "bank": null, "clientName": null}''\<close>


text \<open>A stand-in for the digest function: 64 characters, as every SHA-256 hex digest has.\<close>

definition zero_digest :: "string \<Rightarrow> string \<Rightarrow> string" where
  "zero_digest key msg = replicate 64 CHR ''0''"

section \<open>Properties\<close>

subsection \<open>Local time\<close>

lemma day_start_unique:
  fixes l lm :: int
  assumes "lm mod 86400000 = 0" and "lm \<le> l" and "l < lm + 86400000"
  shows "lm = (l div 86400000) * 86400000"
proof -
  define q where "q = lm div 86400000"
  have q: "lm = q * 86400000"
    using div_mult_mod_eq [of lm 86400000] assms(1) by (simp add: q_def)
  have r: "(l - lm) div 86400000 = 0"
    using assms(2,3) by (simp add: div_pos_pos_trivial)
  have "l = (l - lm) + q * 86400000" using q by simp
  then have "l div 86400000 = ((l - lm) + q * 86400000) div 86400000" by simp
  also have "\<dots> = q + (l - lm) div 86400000" by simp
  finally have "l div 86400000 = q" using r by simp
  with q show ?thesis by simp
qed

lemma day_start_exists:
  fixes l :: int
  shows "((l div 86400000) * 86400000) mod 86400000 = 0"
    and "(l div 86400000) * 86400000 \<le> l"
    and "l < (l div 86400000) * 86400000 + 86400000"
proof -
  show "((l div 86400000) * 86400000) mod 86400000 = 0" by simp
  have "l = (l div 86400000) * 86400000 + l mod 86400000" by simp
  moreover have "0 \<le> l mod 86400000" and "l mod 86400000 < 86400000" by simp_all
  ultimately show "(l div 86400000) * 86400000 \<le> l"
    and "l < (l div 86400000) * 86400000 + 86400000" by linarith+
qed

text \<open>
  \<open>getStartOfTodayISO\<close> is the local midnight of today: the instant at which the local
  clock reads 00:00 of the date it reads at \<open>now\<close>.
\<close>

lemma getStartOfTodayISO_local_midnight:
  assumes "lm mod 86400000 = 0"
      and "lm \<le> now + LocalTZA_utc tz now"
      and "now + LocalTZA_utc tz now < lm + 86400000"
  shows "getStartOfTodayISO tz now = lm - LocalTZA_local tz lm"
proof -
  have "lm = ((now + LocalTZA_utc tz now) div 86400000) * 86400000"
    using assms by (rule day_start_unique)
  then show ?thesis
    by (simp add: getStartOfTodayISO_def setHours_0_def UTC_def LocalTime_def MS_PER_DAY_def)
qed

lemma getStartOfTodayISO_fixed_zone:
  "getStartOfTodayISO (fixed_zone off) now = ((now + off) div 86400000) * 86400000 - off"
  by (simp add: getStartOfTodayISO_def setHours_0_def UTC_def LocalTime_def MS_PER_DAY_def
        fixed_zone_def)

lemma setDate_plus_explicit:
  "setDate_plus tz t n
     = (t + LocalTZA_utc tz t + n * 86400000)
       - LocalTZA_local tz (t + LocalTZA_utc tz t + n * 86400000)"
  by (simp add: setDate_plus_def UTC_def LocalTime_def MS_PER_DAY_def)

lemma setDate_plus_fixed_zone:
  "setDate_plus (fixed_zone off) t n = t + n * 86400000"
  by (simp add: setDate_plus_explicit fixed_zone_def)


subsection \<open>Subscription rows\<close>

lemma ceil_days:
  "\<lceil>(of_int d :: rat) / of_int MS_PER_DAY\<rceil> = - ((- d) div 86400000)"
  unfolding MS_PER_DAY_def
  using ceiling_divide_eq_div [of d 86400000, where ?'a = rat] by simp

lemma getDaysUntilExpiry_div:
  "getDaysUntilExpiry now sub =
     (case period_end sub of None \<Rightarrow> None
      | Some pe \<Rightarrow> if plan sub = Free then None else Some (- ((now - pe) div 86400000)))"
  by (simp add: getDaysUntilExpiry_def ceil_days split: option.splits)

lemma filter_chat_map:
  assumes "\<And>s. sub_chat_id (f s) = sub_chat_id s"
  shows "filter (\<lambda>s. sub_chat_id s = c) (map f xs) = map f (filter (\<lambda>s. sub_chat_id s = c) xs)"
  using assms by (induction xs) auto

lemma getSubscription_map:
  assumes "\<And>s. sub_chat_id (f s) = sub_chat_id s"
  shows "getSubscription (db\<lparr>subscriptions := map f (subscriptions db)\<rparr>) c
           = map_option f (getSubscription db c)"
  by (simp add: getSubscription_def filter_chat_map [OF assms] split: list.splits)




lemma getOrCreateSubscription_transactions:
  "getOrCreateSubscription now db c = Inr (sub, db1) \<Longrightarrow> transactions db1 = transactions db"
  by (auto simp: getOrCreateSubscription_def Let_def split: option.splits if_splits)

subsection \<open>The usage gate\<close>

lemma canProcess_on_free_plan:
  assumes goc: "getOrCreateSubscription now db chatId = Inr (sub, db1)"
      and free: "plan sub = Free"
  shows "canProcess tz now db chatId =
           Inr (\<lparr>allowed = getTodayTransactionCount tz now db chatId < 5, res_plan = Free,
                  used = getTodayTransactionCount tz now db chatId, res_limit = Some 5,
                  message = (if getTodayTransactionCount tz now db chatId \<ge> 5
                             then Some (DailyLimitMsg (getTodayTransactionCount tz now db chatId) 5)
                             else None),
                  expired = None, inGracePeriod = None, daysUntilExpiry = None\<rparr>, db1)"
proof -
  have "getTodayTransactionCount tz now db1 chatId = getTodayTransactionCount tz now db chatId"
    using getOrCreateSubscription_transactions [OF goc]
    by (simp add: getTodayTransactionCount_def)
  then show ?thesis
    using free by (simp add: canProcess_def goc limit_of_def Let_def)
qed

lemma getOrCreateSubscription_counters:
  assumes goc: "getOrCreateSubscription now db chatId = Inr (sub, db1)"
  shows "\<exists>sub' db1'.
           getOrCreateSubscription now
             (db\<lparr>subscriptions := map (\<lambda>s. s\<lparr>transactions_used := f s\<rparr>) (subscriptions db)\<rparr>)
             chatId = Inr (sub', db1')
         \<and> plan sub' = plan sub"
proof -
  let ?g = "\<lambda>s. s\<lparr>transactions_used := f s\<rparr>"
  let ?db = "db\<lparr>subscriptions := map ?g (subscriptions db)\<rparr>"
  have gs: "getSubscription ?db chatId = map_option ?g (getSubscription db chatId)"
    by (rule getSubscription_map) simp
  show ?thesis
  proof (cases "getSubscription db chatId")
    case (Some s)
    with goc have "s = sub" by (simp add: getOrCreateSubscription_def)
    with Some gs show ?thesis by (simp add: getOrCreateSubscription_def)
  next
    case None
    with goc have no: "\<not> (\<exists>s \<in> set (subscriptions db). sub_chat_id s = chatId)"
      and p: "plan sub = Free"
      by (auto simp: getOrCreateSubscription_def Let_def split: if_splits)
    from None gs no show ?thesis
      by (simp add: getOrCreateSubscription_def Let_def p)
  qed
qed


lemma getTodayTransactionCount_since_midnight:
  assumes "lm mod 86400000 = 0"
      and "lm \<le> now + LocalTZA_utc tz now"
      and "now + LocalTZA_utc tz now < lm + 86400000"
  shows "getTodayTransactionCount tz now db chatId
           = int (length (filter (\<lambda>t. tx_chat_id t = chatId
                                       \<and> lm - LocalTZA_local tz lm \<le> tx_created_at t)
                                 (transactions db)))"
  by (simp add: getTodayTransactionCount_def getStartOfTodayISO_local_midnight [OF assms])






text \<open>
  Claim C3. A chat on the free tier (its row has plan free, or it has no row and gets
  the free row made on first access): the decision's \<open>used\<close> is the number of the chat's
  ledger rows created at or after \<open>m\<close>, the instant at which the local clock showed 00:00
  of the date it shows at \<open>now\<close> (\<open>lm\<close> is that clock reading), counted on the ledger at
  the time of the call, and \<open>allowed\<close> holds exactly when that number is below 5. The
  stored usage counter is never read: whatever the counters of the subscription rows
  are set to, \<open>allowed\<close> and \<open>used\<close> come out the same.
\<close>

theorem canProcess_free_tier_live_count:
  assumes goc: "getOrCreateSubscription now db chatId = Inr (sub, db1)"
      and free: "plan sub = Free"
      and midnight: "lm mod 86400000 = 0"
      and today: "lm \<le> now + LocalTZA_utc tz now" "now + LocalTZA_utc tz now < lm + 86400000"
      and m: "m = lm - LocalTZA_local tz lm"
  shows "\<exists>r. canProcess tz now db chatId = Inr (r, db1)
           \<and> res_plan r = Free
           \<and> used r = int (length (filter (\<lambda>t. tx_chat_id t = chatId \<and> m \<le> tx_created_at t)
                                           (transactions db)))
           \<and> (allowed r \<longleftrightarrow> used r < 5)
           \<and> (\<forall>f. \<exists>r' db'.
                 canProcess tz now
                   (db\<lparr>subscriptions :=
                         map (\<lambda>s. s\<lparr>transactions_used := f s\<rparr>) (subscriptions db)\<rparr>)
                   chatId = Inr (r', db')
                 \<and> allowed r' = allowed r \<and> used r' = used r)"
proof -
  note here = canProcess_on_free_plan [OF goc free, of tz]
  note count = getTodayTransactionCount_since_midnight [OF midnight today, of db chatId]
  have other: "\<exists>r' db'.
                 canProcess tz now
                   (db\<lparr>subscriptions :=
                         map (\<lambda>s. s\<lparr>transactions_used := f s\<rparr>) (subscriptions db)\<rparr>)
                   chatId = Inr (r', db')
                 \<and> allowed r' = (getTodayTransactionCount tz now db chatId < 5)
                 \<and> used r' = getTodayTransactionCount tz now db chatId" for f
  proof -
    let ?db = "db\<lparr>subscriptions :=
                   map (\<lambda>s. s\<lparr>transactions_used := f s\<rparr>) (subscriptions db)\<rparr>"
    from getOrCreateSubscription_counters [OF goc, of f]
    obtain sub' db1' where g: "getOrCreateSubscription now ?db chatId = Inr (sub', db1')"
      and p: "plan sub' = Free" using free by auto
    have "getTodayTransactionCount tz now ?db chatId = getTodayTransactionCount tz now db chatId"
      by (simp add: getTodayTransactionCount_def)
    with canProcess_on_free_plan [OF g p, of tz] show ?thesis by simp
  qed
  show ?thesis
    using here other by (simp add: count m)
qed

theorem canProcess_free_tier_live_count_witness:
  "getOrCreateSubscription 100000000 (mk_store [sub_row 7 Free 0 None] busy_ledger) 7
     = Inr (sub_row 7 Free 0 None, mk_store [sub_row 7 Free 0 None] busy_ledger)
   \<and> (86400000 :: int) \<le> 100000000 + LocalTZA_utc (fixed_zone (- 3 * hour)) 100000000
   \<and> (97200000 :: int) = 86400000 - LocalTZA_local (fixed_zone (- 3 * hour)) 86400000
   \<and> length (filter (\<lambda>t. tx_chat_id t = 7) busy_ledger) = 7
   \<and> (\<exists>r. canProcess (fixed_zone (- 3 * hour)) 100000000
               (mk_store [sub_row 7 Free 0 None] busy_ledger) 7
              = Inr (r, mk_store [sub_row 7 Free 0 None] busy_ledger)
         \<and> used r = 5 \<and> \<not> allowed r)"
proof -
  let ?sub = "sub_row 7 Free 0 None"
  let ?db = "mk_store [?sub] busy_ledger"
  let ?tz = "fixed_zone (- 3 * hour)"
  have h1: "getOrCreateSubscription 100000000 ?db 7 = Inr (?sub, ?db)"
    by (simp add: getOrCreateSubscription_def getSubscription_def mk_store_def sub_row_def)
  have h2: "plan ?sub = Free"
    by (simp add: sub_row_def)
  have h3: "(86400000 :: int) mod 86400000 = 0" by simp
  have h4: "86400000 \<le> 100000000 + LocalTZA_utc ?tz 100000000"
    and h5: "100000000 + LocalTZA_utc ?tz 100000000 < 86400000 + 86400000"
    and h6: "(97200000 :: int) = 86400000 - LocalTZA_local ?tz 86400000"
    by (simp_all add: fixed_zone_def hour_def)
  have five: "length (filter (\<lambda>t. tx_chat_id t = 7 \<and> 97200000 \<le> tx_created_at t)
                        (transactions ?db)) = 5"
    by (simp add: mk_store_def busy_ledger_def tx_row_def)
  have seven: "length (filter (\<lambda>t. tx_chat_id t = 7) busy_ledger) = 7"
    by (simp add: busy_ledger_def tx_row_def)
  from canProcess_free_tier_live_count [OF h1 h2 h3 h4 h5 h6]
  obtain r where "canProcess ?tz 100000000 ?db 7 = Inr (r, ?db)"
    and "used r = int (length (filter (\<lambda>t. tx_chat_id t = 7 \<and> 97200000 \<le> tx_created_at t)
                                 (transactions ?db)))"
    and "allowed r \<longleftrightarrow> used r < 5"
    by blast
  then show ?thesis
    using h1 h4 h6 seven unfolding five by auto
qed

subsection \<open>The monthly reset\<close>

text \<open>
  Claim C10. \<open>resetMonthlyUsage\<close> keeps every row in place; a row whose plan is not free
  gets usage counter 0 and period start \<open>now\<close> and is otherwise the same; a free row is
  unchanged; no row's period end changes; the number returned is the number of rows
  whose plan is not free, the rows the update touched; the ledger is unchanged.
\<close>

theorem resetMonthlyUsage_frame:
  assumes r: "resetMonthlyUsage now db = (n, db')"
  shows "length (subscriptions db') = length (subscriptions db)
       \<and> (\<forall>i < length (subscriptions db).
            period_end (subscriptions db' ! i) = period_end (subscriptions db ! i)
          \<and> (plan (subscriptions db ! i) = Free \<longrightarrow> subscriptions db' ! i = subscriptions db ! i)
          \<and> (plan (subscriptions db ! i) \<noteq> Free \<longrightarrow>
               subscriptions db' ! i
                 = (subscriptions db ! i)\<lparr>transactions_used := 0, period_start := now\<rparr>))
       \<and> n = int (card {i. i < length (subscriptions db) \<and> plan (subscriptions db ! i) \<noteq> Free})
       \<and> transactions db' = transactions db"
proof -
  let ?f = "\<lambda>s. if plan s \<noteq> Free then s\<lparr>transactions_used := 0, period_start := now\<rparr> else s"
  from r have db': "db' = db\<lparr>subscriptions := map ?f (subscriptions db)\<rparr>"
    and n: "n = int (length (filter (\<lambda>s. plan s \<noteq> Free) (subscriptions db)))"
    by (auto simp: resetMonthlyUsage_def Let_def)
  have len: "length (subscriptions db') = length (subscriptions db)"
    by (simp add: db')
  have rows: "\<forall>i < length (subscriptions db).
            period_end (subscriptions db' ! i) = period_end (subscriptions db ! i)
          \<and> (plan (subscriptions db ! i) = Free \<longrightarrow> subscriptions db' ! i = subscriptions db ! i)
          \<and> (plan (subscriptions db ! i) \<noteq> Free \<longrightarrow>
               subscriptions db' ! i
                 = (subscriptions db ! i)\<lparr>transactions_used := 0, period_start := now\<rparr>)"
    by (simp add: db')
  have cnt: "n = int (card {i. i < length (subscriptions db) \<and> plan (subscriptions db ! i) \<noteq> Free})"
    by (simp add: n length_filter_conv_card)
  have tx: "transactions db' = transactions db"
    by (simp add: db')
  from len rows cnt tx show ?thesis by blast
qed

theorem resetMonthlyUsage_frame_witness:
  "resetMonthlyUsage 500 (mk_store [sub_row 7 Free 3 None, sub_row 8 Pro 40 (Some 900)] [])
     = (1, mk_store [sub_row 7 Free 3 None,
                     (sub_row 8 Pro 40 (Some 900))\<lparr>transactions_used := 0, period_start := 500\<rparr>] [])
   \<and> 1 = int (card {i. i < length [sub_row 7 Free 3 None, sub_row 8 Pro 40 (Some 900)]
                        \<and> plan ([sub_row 7 Free 3 None, sub_row 8 Pro 40 (Some 900)] ! i) \<noteq> Free})"
  using resetMonthlyUsage_frame
          [of 500 "mk_store [sub_row 7 Free 3 None, sub_row 8 Pro 40 (Some 900)] []" 1
              "mk_store [sub_row 7 Free 3 None,
                 (sub_row 8 Pro 40 (Some 900))\<lparr>transactions_used := 0, period_start := 500\<rparr>] []"]
  by (simp add: resetMonthlyUsage_def mk_store_def sub_row_def)

subsection \<open>The amount column\<close>

lemma round_half_away_bounds:
  "(0 \<le> x \<longrightarrow> of_int (round_half_away x) - 1 / 2 \<le> x \<and> x < of_int (round_half_away x) + 1 / 2)
   \<and> (x < 0 \<longrightarrow> of_int (round_half_away x) - 1 / 2 < x \<and> x \<le> of_int (round_half_away x) + 1 / 2)"
proof (cases "0 \<le> x")
  case True
  define c where "c = \<lfloor>x + 1 / 2\<rfloor>"
  have 1: "of_int c \<le> x + 1 / 2" and 2: "x + 1 / 2 < of_int c + 1"
    unfolding c_def by linarith+
  have r: "round_half_away x = c"
    using True by (simp add: round_half_away_def c_def)
  show ?thesis
    unfolding r using True 1 2 by auto
next
  case False
  define c where "c = \<lfloor>- x + 1 / 2\<rfloor>"
  have 1: "of_int c \<le> - x + 1 / 2" and 2: "- x + 1 / 2 < of_int c + 1"
    unfolding c_def by linarith+
  have r: "round_half_away x = - c"
    using False by (simp add: round_half_away_def c_def)
  show ?thesis
    unfolding r using False 1 2 by auto
qed

lemma round_half_away_eqI:
  assumes "(0 \<le> x \<and> of_int c - 1 / 2 \<le> x \<and> x < of_int c + 1 / 2)
         \<or> (x < 0 \<and> of_int c - 1 / 2 < x \<and> x \<le> of_int c + 1 / 2)"
  shows "round_half_away x = c"
proof -
  define d where "d = round_half_away x"
  note b = round_half_away_bounds [of x, folded d_def]
  have "of_int d < of_int c + (1 :: rat)" "of_int c < of_int d + (1 :: rat)"
    using assms b by auto
  then have "d < c + 1" "c < d + 1"
    by (metis of_int_1 of_int_add of_int_less_iff)+
  then show ?thesis unfolding d_def by simp
qed

lemma DECIMAL_12_2_cents:
  assumes "\<bar>c\<bar> < 10 ^ 12"
  shows "DECIMAL_12_2 (of_int c / 100) = Some (of_int c / 100)"
proof -
  have "round_half_away (of_int c) = c"
    by (rule round_half_away_eqI) auto
  then show ?thesis
    using assms by (simp add: DECIMAL_12_2_def)
qed

lemma DECIMAL_12_2_whole:
  assumes "\<bar>n\<bar> < 10 ^ 10"
  shows "DECIMAL_12_2 (of_int n) = Some (of_int n)"
proof -
  have "\<bar>n * 100\<bar> < 10 ^ 12" using assms by simp
  from DECIMAL_12_2_cents [OF this] show ?thesis by simp
qed

lemma DECIMAL_12_2_nearest:
  assumes "DECIMAL_12_2 a = Some s"
  shows "\<bar>s - a\<bar> \<le> 1 / 200" and "\<exists>c :: int. s = of_int c / 100 \<and> \<bar>c\<bar> < 10 ^ 12"
proof -
  define c where "c = round_half_away (a * 100)"
  from assms have s: "s = of_int c / 100" and b: "\<bar>c\<bar> < 10 ^ 12"
    by (auto simp: DECIMAL_12_2_def c_def Let_def split: if_splits)
  have "\<bar>of_int c - a * 100\<bar> \<le> 1 / 2"
  proof -
    define y where "y = a * 100"
    have "c = round_half_away y" by (simp add: c_def y_def)
    with round_half_away_bounds [of y]
    have "of_int c - 1 / 2 \<le> y" "y \<le> of_int c + 1 / 2"
      by (cases "0 \<le> y"; auto)+
    then show ?thesis unfolding y_def by (simp add: abs_if) 
  qed
  then have "\<bar>(of_int c - a * 100) / 100\<bar> \<le> (1 / 2) / 100"
    by (simp add: abs_if split: if_splits)
  then show "\<bar>s - a\<bar> \<le> 1 / 200" unfolding s by (simp add: diff_divide_distrib)
  from s b show "\<exists>c :: int. s = of_int c / 100 \<and> \<bar>c\<bar> < 10 ^ 12" by blast
qed

lemma DECIMAL_12_2_examples:
  "DECIMAL_12_2 (- 150) = Some (- 150)"
  "DECIMAL_12_2 150 = Some 150"
  "DECIMAL_12_2 (1 / 1000) = Some 0"
  "DECIMAL_12_2 (201 / 200) = Some (101 / 100)"
  "DECIMAL_12_2 (- 1 / 200) = Some (- 1 / 100)"
  "DECIMAL_12_2 100000000000 = None"
proof -
  show "DECIMAL_12_2 (- 150) = Some (- 150)"
    using DECIMAL_12_2_whole [of "- 150"] by simp
  show "DECIMAL_12_2 150 = Some 150"
    using DECIMAL_12_2_whole [of 150] by simp
  have "round_half_away (1 / 1000 * 100) = 0"
    by (rule round_half_away_eqI) simp
  then show "DECIMAL_12_2 (1 / 1000) = Some 0"
    by (simp add: DECIMAL_12_2_def)
  have "round_half_away (201 / 200 * 100) = 101"
    by (rule round_half_away_eqI) simp
  then show "DECIMAL_12_2 (201 / 200) = Some (101 / 100)"
    by (simp add: DECIMAL_12_2_def)
  have "round_half_away (- 1 / 200 * 100) = - 1"
    by (rule round_half_away_eqI) simp
  then show "DECIMAL_12_2 (- 1 / 200) = Some (- 1 / 100)"
    by (simp add: DECIMAL_12_2_def)
  have "round_half_away (100000000000 * 100) = 10000000000000"
    by (rule round_half_away_eqI) simp
  then show "DECIMAL_12_2 100000000000 = None"
    by (simp add: DECIMAL_12_2_def)
qed

subsection \<open>Ledger operations\<close>

lemma filter_other_ids_remove1:
  assumes "distinct (map f xs)" and "x \<in> set xs"
  shows "filter (\<lambda>t. f t \<noteq> f x) xs = remove1 x xs"
  using assms
proof (induction xs)
  case Nil
  then show ?case by simp
next
  case (Cons a xs)
  show ?case
  proof (cases "a = x")
    case True
    with Cons.prems have "\<forall>t \<in> set xs. f t \<noteq> f x" by (auto simp: image_iff)
    then have "filter (\<lambda>t. f t \<noteq> f x) xs = xs" by (simp add: filter_id_conv)
    with True show ?thesis by simp
  next
    case False
    with Cons.prems have "x \<in> set xs" and "f a \<noteq> f x" by auto
    with Cons show ?thesis using False by simp
  qed
qed

lemma filter_other_ids_nth:
  assumes "distinct (map f xs)" and "i < length xs"
  shows "filter (\<lambda>t. f t \<noteq> f (xs ! i)) xs = take i xs @ drop (Suc i) xs"
proof -
  have "distinct xs" using assms(1) by (simp add: distinct_map)
  have "filter (\<lambda>t. f t \<noteq> f (xs ! i)) xs = remove1 (xs ! i) xs"
    using assms by (intro filter_other_ids_remove1) auto
  also have "\<dots> = take i xs @ drop (Suc i) xs"
    using \<open>distinct xs\<close> assms(2)
  proof (induction xs arbitrary: i)
    case Nil
    then show ?case by simp
  next
    case (Cons a xs)
    then show ?case by (cases i) auto
  qed
  finally show ?thesis .
qed

lemma filter_same_id_single:
  assumes "distinct (map f xs)" and "x \<in> set xs"
  shows "filter (\<lambda>t. f t = f x) xs = [x]"
  using assms
proof (induction xs)
  case Nil
  then show ?case by simp
next
  case (Cons a xs)
  show ?case
  proof (cases "a = x")
    case True
    with Cons.prems have "\<forall>t \<in> set xs. f t \<noteq> f x" by (auto simp: image_iff)
    then have "filter (\<lambda>t. f t = f x) xs = []" by (simp add: filter_empty_conv)
    with True show ?thesis by simp
  next
    case False
    with Cons.prems have "x \<in> set xs" and "f a \<noteq> f x" by auto
    with Cons show ?thesis by simp
  qed
qed

lemma distinct_ids_todayRows:
  "distinct (map tx_id (transactions db)) \<Longrightarrow>
   distinct (map tx_id (sort_key k (todayRows tz now db chatId)))"
  by (auto simp: todayRows_def Let_def distinct_map intro: inj_on_subset)

lemma set_todayRows_subset:
  "set (todayRows tz now db chatId) \<subseteq> set (transactions db)"
  by (auto simp: todayRows_def Let_def)


lemma deleteTransactionByIndex_in_range:
  assumes ids: "distinct (map tx_id (transactions db))"
      and lo: "1 \<le> k" and hi: "k \<le> int (length (getTodayTransactions tz now db chatId))"
  shows "deleteTransactionByIndex tz now db chatId (Some k)
           = (Some (getTodayTransactions tz now db chatId ! nat (k - 1)),
              db\<lparr>transactions :=
                   remove1 (getTodayTransactions tz now db chatId ! nat (k - 1))
                           (transactions db)\<rparr>)"
proof -
  let ?L = "getTodayTransactions tz now db chatId"
  let ?x = "?L ! nat (k - 1)"
  have i: "nat (k - 1) < length ?L" using lo hi by linarith
  then have "?x \<in> set ?L" by (rule nth_mem)
  then have mem: "?x \<in> set (transactions db)"
    using set_todayRows_subset [of tz now db chatId] by (auto simp: getTodayTransactions_def)
  have ne: "?L \<noteq> []" using i by auto
  have "deleteTransactionByIndex tz now db chatId (Some k)
          = (Some ?x, db\<lparr>transactions := filter (\<lambda>t. tx_id t \<noteq> tx_id ?x) (transactions db)\<rparr>)"
    using ne lo hi
    by (simp add: deleteTransactionByIndex_def getTodayTransactions_def Let_def)
  then show ?thesis
    by (simp add: filter_other_ids_remove1 [OF ids mem])
qed

lemma getTodayTransactions_after_delete:
  assumes ids: "distinct (map tx_id (transactions db))"
      and i: "i < length (getTodayTransactions tz now db chatId)"
  shows "getTodayTransactions tz now
           (db\<lparr>transactions := remove1 (getTodayTransactions tz now db chatId ! i)
                                        (transactions db)\<rparr>) chatId
           = take i (getTodayTransactions tz now db chatId)
             @ drop (Suc i) (getTodayTransactions tz now db chatId)"
proof -
  let ?L = "getTodayTransactions tz now db chatId"
  let ?x = "?L ! i"
  let ?P = "\<lambda>t. tx_chat_id t = chatId \<and> tx_created_at t \<ge> getStartOfTodayISO tz now"
  have "?x \<in> set ?L" using i by (rule nth_mem)
  then have mem: "?x \<in> set (transactions db)"
    using set_todayRows_subset [of tz now db chatId] by (auto simp: getTodayTransactions_def)
  have dL: "distinct (map tx_id ?L)"
    unfolding getTodayTransactions_def by (rule distinct_ids_todayRows [OF ids])
  have gen: "getTodayTransactions tz now (db\<lparr>transactions := ys\<rparr>) chatId
               = sort_key tx_created_at (filter ?P ys)" for ys
    by (simp add: getTodayTransactions_def todayRows_def Let_def)
  have L: "?L = sort_key tx_created_at (filter ?P (transactions db))"
    by (simp add: getTodayTransactions_def todayRows_def Let_def)
  have "getTodayTransactions tz now (db\<lparr>transactions := remove1 ?x (transactions db)\<rparr>) chatId
          = sort_key tx_created_at (filter ?P (remove1 ?x (transactions db)))"
    by (rule gen)
  also have "\<dots> = sort_key tx_created_at
                       (filter ?P (filter (\<lambda>t. tx_id t \<noteq> tx_id ?x) (transactions db)))"
    by (simp only: filter_other_ids_remove1 [OF ids mem])
  also have "\<dots> = sort_key tx_created_at
                       (filter (\<lambda>t. tx_id t \<noteq> tx_id ?x) (filter ?P (transactions db)))"
    by (simp only: filter_filter conj_commute)
  also have "\<dots> = filter (\<lambda>t. tx_id t \<noteq> tx_id ?x)
                       (sort_key tx_created_at (filter ?P (transactions db)))"
    by (simp only: filter_sort)
  also have "\<dots> = filter (\<lambda>t. tx_id t \<noteq> tx_id ?x) ?L"
    by (simp only: L)
  also have "\<dots> = take i ?L @ drop (Suc i) ?L"
    by (rule filter_other_ids_nth [OF dL i])
  finally show ?thesis .
qed

lemma deleteTransactionByIndex_on_list:
  assumes ids: "distinct (map tx_id (transactions db))"
  shows "(1 \<le> k \<and> k \<le> int (length (getTodayTransactions tz now db chatId)) \<longrightarrow>
            (\<exists>db'. deleteTransactionByIndex tz now db chatId (Some k)
                      = (Some (getTodayTransactions tz now db chatId ! nat (k - 1)), db')
                  \<and> transactions db'
                      = remove1 (getTodayTransactions tz now db chatId ! nat (k - 1))
                                (transactions db)
                  \<and> subscriptions db' = subscriptions db
                  \<and> getTodayTransactions tz now db' chatId
                      = take (nat (k - 1)) (getTodayTransactions tz now db chatId)
                        @ drop (nat k) (getTodayTransactions tz now db chatId)))
       \<and> (k \<le> 0 \<or> k > int (length (getTodayTransactions tz now db chatId)) \<longrightarrow>
            deleteTransactionByIndex tz now db chatId (Some k) = (None, db))
       \<and> deleteTransactionByIndex tz now db chatId None
           = deleteTransactionByIndex tz now db chatId
               (Some (int (length (getTodayTransactions tz now db chatId))))"
proof -
  let ?L = "getTodayTransactions tz now db chatId"
  have inside: "\<exists>db'. deleteTransactionByIndex tz now db chatId (Some k)
                      = (Some (?L ! nat (k - 1)), db')
                  \<and> transactions db' = remove1 (?L ! nat (k - 1)) (transactions db)
                  \<and> subscriptions db' = subscriptions db
                  \<and> getTodayTransactions tz now db' chatId
                      = take (nat (k - 1)) ?L @ drop (nat k) ?L"
    if lo: "1 \<le> k" and hi: "k \<le> int (length ?L)"
  proof -
    have i: "nat (k - 1) < length ?L" using lo hi by linarith
    have s: "Suc (nat (k - 1)) = nat k" using lo by linarith
    show ?thesis
      using deleteTransactionByIndex_in_range [OF ids lo hi]
            getTodayTransactions_after_delete [OF ids i]
      by (simp add: s)
  qed
  have outside: "deleteTransactionByIndex tz now db chatId (Some k) = (None, db)"
    if "k \<le> 0 \<or> k > int (length ?L)"
    using that
    by (auto simp: deleteTransactionByIndex_def getTodayTransactions_def Let_def)
  have dflt: "deleteTransactionByIndex tz now db chatId None
                = deleteTransactionByIndex tz now db chatId (Some (int (length ?L)))"
    by (simp add: deleteTransactionByIndex_def getTodayTransactions_def Let_def)
  from inside outside dflt show ?thesis by blast
qed

text \<open>
  The list of today's transactions of a chat: the ledger rows of that chat created at
  or after the local midnight of today, in ascending order of creation.
\<close>

lemma getTodayTransactions_since_midnight:
  assumes "lm mod 86400000 = 0"
      and "lm \<le> now + LocalTZA_utc tz now"
      and "now + LocalTZA_utc tz now < lm + 86400000"
  shows "getTodayTransactions tz now db chatId
           = sort_key tx_created_at
               (filter (\<lambda>t. tx_chat_id t = chatId \<and> lm - LocalTZA_local tz lm \<le> tx_created_at t)
                       (transactions db))"
  by (simp add: getTodayTransactions_def todayRows_def
        getStartOfTodayISO_local_midnight [OF assms])

text \<open>
  Claim C6. Let \<open>m\<close> be the instant at which the local clock showed 00:00 of the date
  it shows at \<open>now\<close> (\<open>lm\<close> is that clock reading), and \<open>L\<close> the ledger rows of the chat
  created at or after \<open>m\<close>, sorted by creation time (rows of equal time in ledger
  order), in a ledger whose ids are distinct (the primary key). \<open>L\<close> is what
  \<open>getTodayTransactions\<close> lists: it is in ascending order of creation and holds exactly
  those rows. For a position \<open>k\<close> from 1 to the length of \<open>L\<close>,
  \<open>deleteTransactionByIndex\<close> returns the \<open>k\<close>-th row of \<open>L\<close> and removes exactly that
  row: the ledger loses it and nothing else, and today's list afterwards is \<open>L\<close> without
  its \<open>k\<close>-th element. For \<open>k \<le> 0\<close> or \<open>k\<close> above the length nothing is returned and the
  store is unchanged. Without a position the call does what the call with \<open>k\<close> the
  length of \<open>L\<close> does.
\<close>

theorem deleteTransactionByIndex_position:
  assumes ids: "distinct (map tx_id (transactions db))"
      and midnight: "lm mod 86400000 = 0"
      and today: "lm \<le> now + LocalTZA_utc tz now" "now + LocalTZA_utc tz now < lm + 86400000"
      and m: "m = lm - LocalTZA_local tz lm"
      and L: "L = sort_key tx_created_at
                    (filter (\<lambda>t. tx_chat_id t = chatId \<and> m \<le> tx_created_at t) (transactions db))"
  shows "getTodayTransactions tz now db chatId = L
       \<and> sorted (map tx_created_at L)
       \<and> set L = {t \<in> set (transactions db). tx_chat_id t = chatId \<and> m \<le> tx_created_at t}
       \<and> (1 \<le> k \<and> k \<le> int (length L) \<longrightarrow>
            (\<exists>db'. deleteTransactionByIndex tz now db chatId (Some k)
                      = (Some (L ! nat (k - 1)), db')
                  \<and> transactions db' = remove1 (L ! nat (k - 1)) (transactions db)
                  \<and> subscriptions db' = subscriptions db
                  \<and> getTodayTransactions tz now db' chatId
                      = take (nat (k - 1)) L @ drop (nat k) L))
       \<and> (k \<le> 0 \<or> k > int (length L) \<longrightarrow>
            deleteTransactionByIndex tz now db chatId (Some k) = (None, db))
       \<and> deleteTransactionByIndex tz now db chatId None
           = deleteTransactionByIndex tz now db chatId (Some (int (length L)))"
proof -
  have list: "getTodayTransactions tz now db chatId = L"
    unfolding L m by (rule getTodayTransactions_since_midnight [OF midnight today])
  have srt: "sorted (map tx_created_at L)"
    unfolding L by (rule sorted_sort_key)
  have mem: "set L = {t \<in> set (transactions db). tx_chat_id t = chatId \<and> m \<le> tx_created_at t}"
    unfolding L by auto
  from deleteTransactionByIndex_on_list [OF ids, of k tz now chatId] list srt mem
  show ?thesis by simp
qed

theorem deleteTransactionByIndex_position_witness:
  "distinct (map tx_id (transactions (mk_store [] mixed_ledger)))
   \<and> (86400000 :: int) \<le> 100000000 + LocalTZA_utc (fixed_zone (- 3 * hour)) 100000000
   \<and> (97200000 :: int) = 86400000 - LocalTZA_local (fixed_zone (- 3 * hour)) 86400000
   \<and> getTodayTransactions (fixed_zone (- 3 * hour)) 100000000 (mk_store [] mixed_ledger) 7
       = [tx_row 2 7 20 ''b'' 97300000, tx_row 5 7 50 ''e'' 98000000, tx_row 4 7 40 ''d'' 99000000]
   \<and> deleteTransactionByIndex (fixed_zone (- 3 * hour)) 100000000 (mk_store [] mixed_ledger) 7
         (Some 2)
       = (Some (tx_row 5 7 50 ''e'' 98000000),
          mk_store []
            [tx_row 1 7 10 ''a'' 97100000, tx_row 2 7 20 ''b'' 97300000,
             tx_row 3 8 30 ''c'' 97500000, tx_row 4 7 40 ''d'' 99000000,
             tx_row 6 8 60 ''f'' 50000000])
   \<and> deleteTransactionByIndex (fixed_zone (- 3 * hour)) 100000000 (mk_store [] mixed_ledger) 7
         (Some 4)
       = (None, mk_store [] mixed_ledger)"
proof -
  let ?db = "mk_store [] mixed_ledger"
  let ?tz = "fixed_zone (- 3 * hour)"
  let ?L = "[tx_row 2 7 20 ''b'' 97300000, tx_row 5 7 50 ''e'' 98000000,
             tx_row 4 7 40 ''d'' 99000000]"
  have h1: "distinct (map tx_id (transactions ?db))"
    by (simp add: mk_store_def mixed_ledger_def tx_row_def)
  have h2: "(86400000 :: int) mod 86400000 = 0" by simp
  have h3: "86400000 \<le> 100000000 + LocalTZA_utc ?tz 100000000"
    and h4: "100000000 + LocalTZA_utc ?tz 100000000 < 86400000 + 86400000"
    and h5: "(97200000 :: int) = 86400000 - LocalTZA_local ?tz 86400000"
    by (simp_all add: fixed_zone_def hour_def)
  have h6: "?L = sort_key tx_created_at
                   (filter (\<lambda>t. tx_chat_id t = 7 \<and> 97200000 \<le> tx_created_at t) (transactions ?db))"
    by (simp add: mk_store_def mixed_ledger_def tx_row_def)
  note at2 = deleteTransactionByIndex_position [OF h1 h2 h3 h4 h5 h6, of 2]
  note at4 = deleteTransactionByIndex_position [OF h1 h2 h3 h4 h5 h6, of 4]
  from at2 have list: "getTodayTransactions ?tz 100000000 ?db 7 = ?L" by blast
  from at2 obtain db' where
      d2: "deleteTransactionByIndex ?tz 100000000 ?db 7 (Some 2) = (Some (?L ! nat (2 - 1)), db')"
    and t2: "transactions db' = remove1 (?L ! nat (2 - 1)) (transactions ?db)"
    and s2: "subscriptions db' = subscriptions ?db"
    by auto
  have same: "db' = ?db\<lparr>transactions := transactions db'\<rparr>"
    using d2 by (auto simp: deleteTransactionByIndex_def Let_def split: if_splits)
  have "db' = mk_store []
            [tx_row 1 7 10 ''a'' 97100000, tx_row 2 7 20 ''b'' 97300000,
             tx_row 3 8 30 ''c'' 97500000, tx_row 4 7 40 ''d'' 99000000,
             tx_row 6 8 60 ''f'' 50000000]"
    by (subst same, subst t2) (simp add: mk_store_def mixed_ledger_def tx_row_def)
  with d2 have r2: "deleteTransactionByIndex ?tz 100000000 ?db 7 (Some 2)
       = (Some (tx_row 5 7 50 ''e'' 98000000),
          mk_store []
            [tx_row 1 7 10 ''a'' 97100000, tx_row 2 7 20 ''b'' 97300000,
             tx_row 3 8 30 ''c'' 97500000, tx_row 4 7 40 ''d'' 99000000,
             tx_row 6 8 60 ''f'' 50000000])"
    by simp
  from at4 have r4: "deleteTransactionByIndex ?tz 100000000 ?db 7 (Some 4) = (None, ?db)"
    by simp
  from h1 h3 h5 list r2 r4 show ?thesis by blast
qed

lemma sort_key_desc_head:
  assumes "sort_key (\<lambda>t. - tx_created_at t) xs = x # ys"
  shows "x \<in> set xs \<and> (\<forall>t \<in> set xs. tx_created_at t \<le> tx_created_at x)"
proof -
  have "set (x # ys) = set xs" using assms by (metis set_sort)
  moreover have "sorted (map (\<lambda>t. - tx_created_at t) (x # ys))"
    using assms by (metis sorted_sort_key)
  ultimately show ?thesis by auto
qed

lemma map_if_same_id:
  assumes "distinct (map f xs)" and "x \<in> set xs"
  shows "map (\<lambda>t. if f t = f x then g t else t) xs = map (\<lambda>t. if t = x then g t else t) xs"
proof (rule map_cong [OF refl])
  fix t assume "t \<in> set xs"
  with assms have "f t = f x \<longleftrightarrow> t = x"
    by (auto simp: distinct_map dest: inj_onD)
  then show "(if f t = f x then g t else t) = (if t = x then g t else t)" by simp
qed

lemma updateLastTransactionAmount_on_rows:
  assumes ids: "distinct (map tx_id (transactions db))"
  shows "(todayRows tz now db chatId = [] \<longrightarrow>
            updateLastTransactionAmount tz now db chatId newAmount = Inr (None, db))
       \<and> (todayRows tz now db chatId \<noteq> [] \<and> DECIMAL_12_2 newAmount = None \<longrightarrow>
            updateLastTransactionAmount tz now db chatId newAmount = Inl StoreError)
       \<and> (todayRows tz now db chatId \<noteq> [] \<and> DECIMAL_12_2 newAmount = Some stored \<longrightarrow>
            (\<exists>lastTx.
                lastTx \<in> set (todayRows tz now db chatId)
              \<and> (\<forall>t \<in> set (todayRows tz now db chatId). tx_created_at t \<le> tx_created_at lastTx)
              \<and> updateLastTransactionAmount tz now db chatId newAmount
                  = Inr (Some (lastTx\<lparr>amount := stored\<rparr>),
                         db\<lparr>transactions :=
                              map (\<lambda>t. if t = lastTx then t\<lparr>amount := stored\<rparr> else t)
                                  (transactions db)\<rparr>)))"
proof -
  let ?rows = "todayRows tz now db chatId"
  let ?desc = "sort_key (\<lambda>t. - tx_created_at t) ?rows"
  have none: "updateLastTransactionAmount tz now db chatId newAmount = Inr (None, db)"
    if "?rows = []"
    using that by (simp add: updateLastTransactionAmount_def)
  have some: "\<exists>x ys. ?desc = x # ys \<and> x \<in> set ?rows
                \<and> (\<forall>t \<in> set ?rows. tx_created_at t \<le> tx_created_at x)
                \<and> filter (\<lambda>t. tx_id t = tx_id x) (transactions db) = [x]
                \<and> map (\<lambda>t. if tx_id t = tx_id x then t\<lparr>amount := stored\<rparr> else t) (transactions db)
                    = map (\<lambda>t. if t = x then t\<lparr>amount := stored\<rparr> else t) (transactions db)"
    if "?rows \<noteq> []"
  proof -
    from that have "?desc \<noteq> []" by (metis length_0_conv length_sort)
    then obtain x ys where d: "?desc = x # ys" by (cases ?desc) auto
    from sort_key_desc_head [OF d]
    have xin: "x \<in> set ?rows" and xmax: "\<forall>t \<in> set ?rows. tx_created_at t \<le> tx_created_at x"
      by auto
    have mem: "x \<in> set (transactions db)"
      using xin set_todayRows_subset [of tz now db chatId] by auto
    have one: "filter (\<lambda>t. tx_id t = tx_id x) (transactions db) = [x]"
      by (rule filter_same_id_single [OF ids mem])
    from d xin xmax one map_if_same_id [OF ids mem] show ?thesis by blast
  qed
  have rej: "updateLastTransactionAmount tz now db chatId newAmount = Inl StoreError"
    if "?rows \<noteq> []" "DECIMAL_12_2 newAmount = None"
  proof -
    from some [OF that(1)] obtain x ys where "?desc = x # ys" by blast
    with that(2) show ?thesis by (simp add: updateLastTransactionAmount_def)
  qed
  have acc: "\<exists>lastTx.
                lastTx \<in> set ?rows
              \<and> (\<forall>t \<in> set ?rows. tx_created_at t \<le> tx_created_at lastTx)
              \<and> updateLastTransactionAmount tz now db chatId newAmount
                  = Inr (Some (lastTx\<lparr>amount := stored\<rparr>),
                         db\<lparr>transactions :=
                              map (\<lambda>t. if t = lastTx then t\<lparr>amount := stored\<rparr> else t)
                                  (transactions db)\<rparr>)"
    if "?rows \<noteq> []" "DECIMAL_12_2 newAmount = Some stored"
  proof -
    from some [OF that(1)] obtain x ys where d: "?desc = x # ys" and xin: "x \<in> set ?rows"
      and xmax: "\<forall>t \<in> set ?rows. tx_created_at t \<le> tx_created_at x"
      and one: "filter (\<lambda>t. tx_id t = tx_id x) (transactions db) = [x]"
      and mp: "map (\<lambda>t. if tx_id t = tx_id x then t\<lparr>amount := stored\<rparr> else t) (transactions db)
                 = map (\<lambda>t. if t = x then t\<lparr>amount := stored\<rparr> else t) (transactions db)"
      by blast
    have "updateLastTransactionAmount tz now db chatId newAmount
            = Inr (Some (x\<lparr>amount := stored\<rparr>),
                   db\<lparr>transactions :=
                        map (\<lambda>t. if tx_id t = tx_id x then t\<lparr>amount := stored\<rparr> else t)
                            (transactions db)\<rparr>)"
      by (simp add: updateLastTransactionAmount_def d one that(2))
    then have "updateLastTransactionAmount tz now db chatId newAmount
            = Inr (Some (x\<lparr>amount := stored\<rparr>),
                   db\<lparr>transactions :=
                        map (\<lambda>t. if t = x then t\<lparr>amount := stored\<rparr> else t) (transactions db)\<rparr>)"
      by (simp only: mp)
    with xin xmax show ?thesis by blast
  qed
  from none rej acc show ?thesis by blast
qed

lemma todayRows_since_midnight:
  assumes "lm mod 86400000 = 0"
      and "lm \<le> now + LocalTZA_utc tz now"
      and "now + LocalTZA_utc tz now < lm + 86400000"
  shows "todayRows tz now db chatId
           = filter (\<lambda>t. tx_chat_id t = chatId \<and> lm - LocalTZA_local tz lm \<le> tx_created_at t)
                    (transactions db)"
  by (simp add: todayRows_def getStartOfTodayISO_local_midnight [OF assms])

text \<open>
  Claim C7, as amended. Let \<open>m\<close> be the instant at which the local clock showed 00:00
  of the date it shows at \<open>now\<close> (\<open>lm\<close> is that clock reading), \<open>T\<close> the ledger rows of
  the chat created at or after \<open>m\<close>, and \<open>cents\<close> the new amount in hundredths, rounded
  to a whole number with halves away from zero, in a ledger whose ids are distinct.
  When \<open>T\<close> is empty, \<open>updateLastTransactionAmount\<close> returns none and the store is
  unchanged. When \<open>T\<close> is not empty and \<open>cents\<close> has at most twelve digits, it picks a
  row of \<open>T\<close> that no row of \<open>T\<close> is newer than, returns it with its amount replaced by
  \<open>cents / 100\<close>, and the ledger afterwards is the old one with that row's amount
  replaced; every other field of the row, every other row and the subscription table
  are unchanged. When \<open>T\<close> is not empty and \<open>cents\<close> has more digits, the store rejects
  the update and the function throws.
\<close>

theorem updateLastTransactionAmount_frame:
  assumes ids: "distinct (map tx_id (transactions db))"
      and midnight: "lm mod 86400000 = 0"
      and today: "lm \<le> now + LocalTZA_utc tz now" "now + LocalTZA_utc tz now < lm + 86400000"
      and m: "m = lm - LocalTZA_local tz lm"
      and T: "T = filter (\<lambda>t. tx_chat_id t = chatId \<and> m \<le> tx_created_at t) (transactions db)"
      and cents: "cents = (if newAmount \<ge> 0 then \<lfloor>newAmount * 100 + 1 / 2\<rfloor>
                           else - \<lfloor>- (newAmount * 100) + 1 / 2\<rfloor>)"
  shows "(T = [] \<longrightarrow> updateLastTransactionAmount tz now db chatId newAmount = Inr (None, db))
       \<and> (T \<noteq> [] \<and> \<bar>cents\<bar> < 10 ^ 12 \<longrightarrow>
            (\<exists>lastTx db'.
                lastTx \<in> set T
              \<and> (\<forall>t \<in> set T. tx_created_at t \<le> tx_created_at lastTx)
              \<and> updateLastTransactionAmount tz now db chatId newAmount
                  = Inr (Some (lastTx\<lparr>amount := of_int cents / 100\<rparr>), db')
              \<and> transactions db'
                  = map (\<lambda>t. if t = lastTx then t\<lparr>amount := of_int cents / 100\<rparr> else t)
                        (transactions db)
              \<and> subscriptions db' = subscriptions db))
       \<and> (T \<noteq> [] \<and> \<bar>cents\<bar> \<ge> 10 ^ 12 \<longrightarrow>
            updateLastTransactionAmount tz now db chatId newAmount = Inl StoreError)"
proof -
  have rows: "todayRows tz now db chatId = T"
    unfolding T m by (rule todayRows_since_midnight [OF midnight today])
  have c: "round_half_away (newAmount * 100) = cents"
    by (simp add: round_half_away_def cents)
  have acc: "DECIMAL_12_2 newAmount = Some (of_int cents / 100)" if "\<bar>cents\<bar> < 10 ^ 12"
    using that by (simp add: DECIMAL_12_2_def c)
  have rej: "DECIMAL_12_2 newAmount = None" if "\<bar>cents\<bar> \<ge> 10 ^ 12"
    using that by (simp add: DECIMAL_12_2_def c)
  note base = updateLastTransactionAmount_on_rows
                [OF ids, of tz now chatId newAmount "of_int cents / 100", unfolded rows]
  have one: "T = [] \<longrightarrow> updateLastTransactionAmount tz now db chatId newAmount = Inr (None, db)"
    using base by blast
  have two: "\<exists>lastTx db'.
                lastTx \<in> set T
              \<and> (\<forall>t \<in> set T. tx_created_at t \<le> tx_created_at lastTx)
              \<and> updateLastTransactionAmount tz now db chatId newAmount
                  = Inr (Some (lastTx\<lparr>amount := of_int cents / 100\<rparr>), db')
              \<and> transactions db'
                  = map (\<lambda>t. if t = lastTx then t\<lparr>amount := of_int cents / 100\<rparr> else t)
                        (transactions db)
              \<and> subscriptions db' = subscriptions db"
    if "T \<noteq> []" "\<bar>cents\<bar> < 10 ^ 12"
  proof -
    from base that acc obtain lastTx where
        "lastTx \<in> set T" "\<forall>t \<in> set T. tx_created_at t \<le> tx_created_at lastTx"
        "updateLastTransactionAmount tz now db chatId newAmount
           = Inr (Some (lastTx\<lparr>amount := of_int cents / 100\<rparr>),
                  db\<lparr>transactions :=
                       map (\<lambda>t. if t = lastTx then t\<lparr>amount := of_int cents / 100\<rparr> else t)
                           (transactions db)\<rparr>)"
      by blast
    then show ?thesis by force
  qed
  have three: "updateLastTransactionAmount tz now db chatId newAmount = Inl StoreError"
    if "T \<noteq> []" "\<bar>cents\<bar> \<ge> 10 ^ 12"
    using base that rej by blast
  from one two three show ?thesis by blast
qed


theorem updateLastTransactionAmount_frame_witness:
  "distinct (map tx_id (transactions (mk_store [] mixed_ledger)))
   \<and> (86400000 :: int) \<le> 100000000 + LocalTZA_utc (fixed_zone (- 3 * hour)) 100000000
   \<and> (97200000 :: int) = 86400000 - LocalTZA_local (fixed_zone (- 3 * hour)) 86400000
   \<and> filter (\<lambda>t. tx_chat_id t = 7 \<and> 97200000 \<le> tx_created_at t)
             (transactions (mk_store [] mixed_ledger))
       = [tx_row 2 7 20 ''b'' 97300000, tx_row 4 7 40 ''d'' 99000000, tx_row 5 7 50 ''e'' 98000000]
   \<and> updateLastTransactionAmount (fixed_zone (- 3 * hour)) 100000000 (mk_store [] mixed_ledger) 7
         (1 / 1000)
       = Inr (Some (tx_row 4 7 0 ''d'' 99000000),
              mk_store []
                [tx_row 1 7 10 ''a'' 97100000, tx_row 2 7 20 ''b'' 97300000,
                 tx_row 3 8 30 ''c'' 97500000, tx_row 4 7 0 ''d'' 99000000,
                 tx_row 5 7 50 ''e'' 98000000, tx_row 6 8 60 ''f'' 50000000])"
proof -
  let ?db = "mk_store [] mixed_ledger"
  let ?tz = "fixed_zone (- 3 * hour)"
  let ?T = "[tx_row 2 7 20 ''b'' 97300000, tx_row 4 7 40 ''d'' 99000000,
             tx_row 5 7 50 ''e'' 98000000]"
  have h1: "distinct (map tx_id (transactions ?db))"
    by (simp add: mk_store_def mixed_ledger_def tx_row_def)
  have h2: "(86400000 :: int) mod 86400000 = 0" by simp
  have h3: "86400000 \<le> 100000000 + LocalTZA_utc ?tz 100000000"
    and h4: "100000000 + LocalTZA_utc ?tz 100000000 < 86400000 + 86400000"
    and h5: "(97200000 :: int) = 86400000 - LocalTZA_local ?tz 86400000"
    by (simp_all add: fixed_zone_def hour_def)
  have h6: "?T = filter (\<lambda>t. tx_chat_id t = 7 \<and> 97200000 \<le> tx_created_at t) (transactions ?db)"
    by (simp add: mk_store_def mixed_ledger_def tx_row_def)
  have "\<lfloor>(1 / 1000 :: rat) * 100 + 1 / 2\<rfloor> = 0"
    by (rule floor_unique) simp_all
  then have h7: "(0 :: int) = (if (1 / 1000 :: rat) \<ge> 0 then \<lfloor>(1 / 1000 :: rat) * 100 + 1 / 2\<rfloor>
                               else - \<lfloor>- ((1 / 1000 :: rat) * 100) + 1 / 2\<rfloor>)"
    by simp
  from updateLastTransactionAmount_frame [OF h1 h2 h3 h4 h5 h6 h7]
  obtain lastTx db' where mem: "lastTx \<in> set ?T"
    and latest: "\<forall>t \<in> set ?T. tx_created_at t \<le> tx_created_at lastTx"
    and res: "updateLastTransactionAmount ?tz 100000000 ?db 7 (1 / 1000)
                = Inr (Some (lastTx\<lparr>amount := of_int 0 / 100\<rparr>), db')"
    and tx: "transactions db'
               = map (\<lambda>t. if t = lastTx then t\<lparr>amount := of_int 0 / 100\<rparr> else t) (transactions ?db)"
    and subs: "subscriptions db' = subscriptions ?db"
    by auto
  from mem latest have last: "lastTx = tx_row 4 7 40 ''d'' 99000000"
    by (auto simp: tx_row_def)
  have same: "db' = ?db\<lparr>transactions := transactions db'\<rparr>"
    using res by (auto simp: updateLastTransactionAmount_def split: list.splits option.splits)
  have "db' = mk_store []
                [tx_row 1 7 10 ''a'' 97100000, tx_row 2 7 20 ''b'' 97300000,
                 tx_row 3 8 30 ''c'' 97500000, tx_row 4 7 0 ''d'' 99000000,
                 tx_row 5 7 50 ''e'' 98000000, tx_row 6 8 60 ''f'' 50000000]"
    by (subst same, subst tx) (simp add: last mk_store_def mixed_ledger_def tx_row_def)
  with res last have "updateLastTransactionAmount ?tz 100000000 ?db 7 (1 / 1000)
       = Inr (Some (tx_row 4 7 0 ''d'' 99000000),
              mk_store []
                [tx_row 1 7 10 ''a'' 97100000, tx_row 2 7 20 ''b'' 97300000,
                 tx_row 3 8 30 ''c'' 97500000, tx_row 4 7 0 ''d'' 99000000,
                 tx_row 5 7 50 ''e'' 98000000, tx_row 6 8 60 ''f'' 50000000])"
    by (simp add: tx_row_def)
  with h1 h3 h5 h6 show ?thesis by simp
qed

text \<open>
  Claim C7, as stated, fails: chat 7 has three transactions today, and an update of
  its last amount to 100000000000 returns no row; the column rejects the value and the
  function throws.
\<close>

theorem updateLastTransactionAmount_overflow_counterexample:
  "getTodayTransactions (fixed_zone (- 3 * hour)) 100000000 (mk_store [] mixed_ledger) 7
     = [tx_row 2 7 20 ''b'' 97300000, tx_row 5 7 50 ''e'' 98000000, tx_row 4 7 40 ''d'' 99000000]
   \<and> updateLastTransactionAmount (fixed_zone (- 3 * hour)) 100000000 (mk_store [] mixed_ledger) 7
         100000000000
       = Inl StoreError"
proof -
  have rows: "todayRows (fixed_zone (- 3 * hour)) 100000000 (mk_store [] mixed_ledger) 7
                = [tx_row 2 7 20 ''b'' 97300000, tx_row 4 7 40 ''d'' 99000000,
                   tx_row 5 7 50 ''e'' 98000000]"
    by (simp add: todayRows_def getStartOfTodayISO_fixed_zone hour_def mk_store_def
          mixed_ledger_def tx_row_def)
  show ?thesis
    unfolding getTodayTransactions_def updateLastTransactionAmount_def rows
    by (simp add: DECIMAL_12_2_examples tx_row_def)
qed

text \<open>The operations keep a ledger well-formed.\<close>

lemma ledger_ok_saveTransaction:
  assumes "ledger_ok db" and "saveTransaction ok now db c a b n f r = Inr (row, db')"
  shows "ledger_ok db'"
proof -
  from assms(2) have db': "db' = db\<lparr>transactions := transactions db @ [row],
                                       next_tx_id := next_tx_id db + 1\<rparr>"
    and row: "tx_id row = next_tx_id db"
    by (auto simp: saveTransaction_def Let_def split: if_splits option.splits)
  from assms(1) have d: "distinct (map tx_id (transactions db))"
    and b: "\<forall>t \<in> set (transactions db). tx_id t < next_tx_id db"
    by (auto simp: ledger_ok_def list_all_iff)
  from b have "next_tx_id db \<notin> tx_id ` set (transactions db)" by auto
  with d b show ?thesis
    by (auto simp: ledger_ok_def list_all_iff db' row)
qed

lemma ledger_ok_deleteTransactionByIndex:
  assumes "ledger_ok db" and "deleteTransactionByIndex tz now db c k = (r, db')"
  shows "ledger_ok db'"
  using assms
  by (auto simp: ledger_ok_def deleteTransactionByIndex_def Let_def list_all_iff distinct_map_filter
           split: if_splits)

lemma ledger_ok_updateLastTransactionAmount:
  assumes "ledger_ok db" and "updateLastTransactionAmount tz now db c a = Inr (r, db')"
  shows "ledger_ok db'"
proof -
  have m: "tx_id \<circ> (\<lambda>t. if tx_id t = i then t\<lparr>amount := s\<rparr> else t) = tx_id" for i s
    by (auto simp: fun_eq_iff)
  from assms(2) have "db' = db \<or>
      (\<exists>i s. db' = db\<lparr>transactions :=
                       map (\<lambda>t. if tx_id t = i then t\<lparr>amount := s\<rparr> else t) (transactions db)\<rparr>)"
    by (auto simp: updateLastTransactionAmount_def split: list.splits option.splits)
  then show ?thesis
  proof
    assume "db' = db"
    with assms(1) show ?thesis by simp
  next
    assume "\<exists>i s. db' = db\<lparr>transactions :=
                       map (\<lambda>t. if tx_id t = i then t\<lparr>amount := s\<rparr> else t) (transactions db)\<rparr>"
    then obtain i s where "db' = db\<lparr>transactions :=
                       map (\<lambda>t. if tx_id t = i then t\<lparr>amount := s\<rparr> else t) (transactions db)\<rparr>"
      by blast
    with assms(1) show ?thesis
      by (auto simp: ledger_ok_def list_all_iff m)
  qed
qed

subsection \<open>Receipt handlers\<close>


lemma saveTransaction_Inl:
  "saveTransaction ok now db c a b n f r = Inl e \<Longrightarrow> \<not> ok \<or> DECIMAL_12_2 a = None"
  by (auto simp: saveTransaction_def Let_def split: if_splits option.splits)












lemmas gate_simps =
  canProcess_def getOrCreateSubscription_def getSubscription_def isSubscriptionExpired_def
  isInGracePeriod_def getDaysUntilExpiry_div downgradeToFree_def getTodayTransactionCount_def
  getStartOfTodayISO_fixed_zone setDate_plus_fixed_zone GRACE_PERIOD_DAYS_def limit_of_def
  mk_store_def sub_row_def tx_row_def five_today_def day_def

lemmas world_simps =
  ocr_world_def amount_only_def extractPixAmount_def extractPixData_def extractWithModel_def
  parseExtractionResponse_def or_null_def


text \<open>
  Claim C5 (the code evaluates the gate before the duplicate check). Chat 7 is on the
  free plan and has five receipts today, one of them the file \<open>a\<close>. When the chat sends
  \<open>a\<close> again, both handlers answer with the refusal of the gate (daily limit reached),
  not with the duplicate rejection. When chat 7 instead holds a basico subscription that
  ended 40 days ago and sends the duplicate \<open>a\<close>, both handlers answer with the duplicate
  rejection, and the store they leave has the subscription rewritten to the free plan:
  the gate ran, and downgraded, before the duplicate was looked for.
\<close>

theorem processImage_gate_before_duplicate:
  "isDuplicate (mk_store [sub_row 7 Free 0 None] five_today) 7 ''a''
   \<and> processImage (fixed_zone 0) 100 w (mk_store [sub_row 7 Free 0 None] five_today) [''a''] 7
       = Inr ([LimitReply (Some (DailyLimitMsg 5 5)) Free False],
              mk_store [sub_row 7 Free 0 None] five_today)
   \<and> processDocument (fixed_zone 0) 100 w (mk_store [sub_row 7 Free 0 None] five_today) (Some ''a'') mt 7
       = Inr ([LimitReply (Some (DailyLimitMsg 5 5)) Free False],
              mk_store [sub_row 7 Free 0 None] five_today)
   \<and> isDuplicate (mk_store [sub_row 7 Basico 12 (Some 0)] five_today) 7 ''a''
   \<and> processImage (fixed_zone 0) (40 * day) w (mk_store [sub_row 7 Basico 12 (Some 0)] five_today) [''a''] 7
       = Inr ([DuplicateReply], mk_store [sub_row 7 Free 0 None] five_today)
   \<and> processDocument (fixed_zone 0) (40 * day) w (mk_store [sub_row 7 Basico 12 (Some 0)] five_today)
         (Some ''a'') mt 7
       = Inr ([DuplicateReply], mk_store [sub_row 7 Free 0 None] five_today)"
proof -
  have g1: "canProcess (fixed_zone 0) 100 (mk_store [sub_row 7 Free 0 None] five_today) 7
              = Inr (\<lparr>allowed = False, res_plan = Free, used = 5, res_limit = Some 5,
                       message = Some (DailyLimitMsg 5 5), expired = None,
                       inGracePeriod = None, daysUntilExpiry = None\<rparr>,
                     mk_store [sub_row 7 Free 0 None] five_today)"
    by (simp add: gate_simps)
  have g2: "canProcess (fixed_zone 0) (40 * day) (mk_store [sub_row 7 Basico 12 (Some 0)] five_today) 7
              = Inr (\<lparr>allowed = True, res_plan = Free, used = 0, res_limit = Some 5,
                       message = Some (ExpiredMsg (displayName (PLANS Basico))),
                       expired = Some True, inGracePeriod = None, daysUntilExpiry = None\<rparr>,
                     mk_store [sub_row 7 Free 0 None] five_today)"
    by (simp add: gate_simps)
  have d: "isDuplicate (mk_store subs five_today) 7 ''a''" for subs
    by (simp add: isDuplicate_def mk_store_def five_today_def tx_row_def)
  show ?thesis
    by (simp add: processImage_def processDocument_def g1 g2 d)
qed

text \<open>
  The handler of \<^verbatim>\<open>/editar\<close> passes an amount on to the update only when it is
  positive.
\<close>

lemma editar_checks_positive:
  assumes "editar parseFloat tz now db chatId args = Inr (sent, db')"
  shows "db' = db \<or>
         (\<exists>a lastTx. a > 0
            \<and> updateLastTransactionAmount tz now db chatId a = Inr (Some lastTx, db'))"
proof -
  have none: "db'' = db"
    if "updateLastTransactionAmount tz now db chatId a = Inr (None, db'')" for a db''
    using that
    by (auto simp: updateLastTransactionAmount_def split: list.splits option.splits)
  from assms show ?thesis
    by (auto simp: editar_def Let_def none
             split: if_splits option.splits sum.splits prod.splits)
qed

text \<open>
  Claim C8 (the receipt path stores an amount that is not positive). Chat 7 is on the
  free plan with an empty ledger; the model answers a photo with an amount of -150. The
  handler checks the amount against \<^verbatim>\<open>null\<close> only: it appends a ledger row with amount
  -150 and reports a running total of -150.
\<close>

theorem processImage_stores_negative_amount:
  "processImage (fixed_zone 0) 100 (ocr_world negative_reply (amount_only (Some (- 150))))
     (mk_store [sub_row 7 Free 0 None] []) [''f1''] 7
     = Inr ([ProcessingReply, RunningTotalReply (- 150) None None (- 150) 1],
            \<lparr>subscriptions = [sub_row 7 Free 0 None],
             transactions = [\<lparr>tx_id = 1000, tx_chat_id = 7, amount = - 150,
                              bank_detected = None, client_name = None,
                              telegram_file_id = ''f1'', raw_response = negative_reply,
                              tx_created_at = 100\<rparr>],
             next_sub_id = 1000, next_tx_id = 1001\<rparr>)"
proof -
  have g: "canProcess (fixed_zone 0) 100 (mk_store [sub_row 7 Free 0 None] []) 7
              = Inr (\<lparr>allowed = True, res_plan = Free, used = 0, res_limit = Some 5,
                       message = None, expired = None,
                       inGracePeriod = None, daysUntilExpiry = None\<rparr>,
                     mk_store [sub_row 7 Free 0 None] [])"
    by (simp add: gate_simps)
  have r: "extractPixAmount (ocr_world negative_reply (amount_only (Some (- 150)))) ''image/jpeg''
             = \<lparr>ex_amount = Some (- 150), ex_bank = None, ex_clientName = None,
                rawResponse = negative_reply, ex_error = None\<rparr>"
    by (simp add: world_simps)
  have w: "download (ocr_world negative_reply (amount_only (Some (- 150)))) = Some ''photos/file_1.jpg''"
    "insert_ok (ocr_world negative_reply (amount_only (Some (- 150))))"
    by (simp_all add: ocr_world_def)
  have d: "\<not> isDuplicate (mk_store [sub_row 7 Free 0 None] []) 7 ''f1''"
    by (simp add: isDuplicate_def mk_store_def)
  show ?thesis
    by (simp add: processImage_def g r w d suffix_to_prefix Let_def)
       (simp add: r Let_def saveTransaction_def incrementUsage_def
          getOrCreateSubscription_def getSubscription_def getRunningTotalMessage_def
          getTodayStats_def todayRows_def getStartOfTodayISO_fixed_zone
          DECIMAL_12_2_examples mk_store_def sub_row_def)
qed

subsection \<open>Webhook signature\<close>

lemma parseSignatureParts_values:
  assumes "\<forall>k v. m k = Some v \<longrightarrow> v \<noteq> []"
      and "parseSignatureParts ps m k = Some v"
  shows "v \<noteq> []"
  using assms
proof (induction ps arbitrary: m)
  case Nil
  then show ?case by simp
next
  case (Cons p ps)
  show ?case
  proof (cases "split_on CHR ''='' p")
    case Nil
    with Cons show ?thesis by simp
  next
    case (Cons key rest)
    note outer = this
    show ?thesis
    proof (cases rest)
      case Nil
      with outer Cons.prems Cons.IH show ?thesis by simp
    next
      case (Cons val more)
      show ?thesis
      proof (cases "key \<noteq> [] \<and> val \<noteq> []")
        case True
        have "\<forall>k' v'. (m(key \<mapsto> val)) k' = Some v' \<longrightarrow> v' \<noteq> []"
          using Cons.prems(1) True by auto
        moreover have "parseSignatureParts ps (m(key \<mapsto> val)) k = Some v"
          using Cons.prems(2) outer Cons True by simp
        ultimately show ?thesis by (rule Cons.IH)
      next
        case False
        then have "parseSignatureParts ps m k = Some v"
          using Cons.prems(2) outer Cons by auto
        with Cons.prems(1) show ?thesis by (rule Cons.IH)
      qed
    qed
  qed
qed

lemma validateWebhookSignature_no_secret:
  "validateWebhookSignature hmac None xSignature xRequestId dataId = Inr True"
  "validateWebhookSignature hmac (Some []) xSignature xRequestId dataId = Inr True"
  by (simp_all add: validateWebhookSignature_def)

lemma validateWebhookSignature_missing_header:
  assumes "secret \<noteq> []"
      and "xSignature \<in> {None, Some []} \<or> xRequestId \<in> {None, Some []}"
  shows "validateWebhookSignature hmac (Some secret) xSignature xRequestId dataId = Inr False"
  using assms by (auto simp: validateWebhookSignature_def split: option.splits)

lemma validateWebhookSignature_malformed:
  assumes "secret \<noteq> []"
      and "parseSignatureParts (split_on CHR '','' sig) Map.empty ''ts'' = None
           \<or> parseSignatureParts (split_on CHR '','' sig) Map.empty ''v1'' = None"
  shows "validateWebhookSignature hmac (Some secret) (Some sig) xRequestId dataId = Inr False"
  using assms by (auto simp: validateWebhookSignature_def Let_def split: option.splits)

lemma validateWebhookSignature_same_length:
  assumes "secret \<noteq> []" and "sig \<noteq> []" and "rid \<noteq> []"
      and ts: "parseSignatureParts (split_on CHR '','' sig) Map.empty ''ts'' = Some ts"
      and v1: "parseSignatureParts (split_on CHR '','' sig) Map.empty ''v1'' = Some v1"
      and len: "length v1 =
                  length (hmac secret (''id:'' @ dataId @ '';request-id:'' @ rid
                                         @ '';ts:'' @ ts @ '';''))"
  shows "validateWebhookSignature hmac (Some secret) (Some sig) (Some rid) dataId
           = Inr (v1 = hmac secret (''id:'' @ dataId @ '';request-id:'' @ rid
                                      @ '';ts:'' @ ts @ '';''))"
proof -
  have "ts \<noteq> []" using parseSignatureParts_values [OF _ ts] by simp
  moreover have "v1 \<noteq> []" using parseSignatureParts_values [OF _ v1] by simp
  ultimately show ?thesis
    using assms by (simp add: validateWebhookSignature_def timingSafeEqual_def Let_def)
qed

text \<open>
  Claim C9 (a \<open>v1\<close> of another length than the digest makes the function throw). With a
  secret configured, both headers present and an \<^verbatim>\<open>x-signature\<close> that carries a \<open>ts\<close>
  and a \<open>v1\<close>: when \<open>v1\<close> and the expected hex digest differ in length,
  \<open>validateWebhookSignature\<close> does not return \<open>false\<close>; the comparison throws a
  \<^verbatim>\<open>RangeError\<close>. (A SHA-256 hex digest has 64 characters, so this is every \<open>v1\<close> that
  has not exactly 64.)
\<close>

theorem validateWebhookSignature_length_mismatch_throws:
  assumes secret: "secret \<noteq> []" and sig: "sig \<noteq> []" and rid: "rid \<noteq> []"
      and ts: "parseSignatureParts (split_on CHR '','' sig) Map.empty ''ts'' = Some ts"
      and v1: "parseSignatureParts (split_on CHR '','' sig) Map.empty ''v1'' = Some v1"
      and len: "length v1 \<noteq>
                  length (hmac secret (''id:'' @ dataId @ '';request-id:'' @ rid
                                         @ '';ts:'' @ ts @ '';''))"
  shows "validateWebhookSignature hmac (Some secret) (Some sig) (Some rid) dataId = Inl RangeError"
proof -
  have "ts \<noteq> []" using parseSignatureParts_values [OF _ ts] by simp
  moreover have "v1 \<noteq> []" using parseSignatureParts_values [OF _ v1] by simp
  ultimately show ?thesis
    using secret sig rid ts v1 len
    by (simp add: validateWebhookSignature_def timingSafeEqual_def Let_def)
qed

theorem validateWebhookSignature_length_mismatch_throws_witness:
  "validateWebhookSignature zero_digest (Some ''s3cret'') (Some ''ts=1700000000,v1=abc'')
     (Some ''req-1'') ''12345'' = Inl RangeError"
proof -
  have ts: "parseSignatureParts (split_on CHR '','' ''ts=1700000000,v1=abc'') Map.empty ''ts''
              = Some ''1700000000''"
    by simp
  have v1: "parseSignatureParts (split_on CHR '','' ''ts=1700000000,v1=abc'') Map.empty ''v1''
              = Some ''abc''"
    by simp
  have len: "length ''abc'' \<noteq>
               length (zero_digest ''s3cret'' (''id:'' @ ''12345'' @ '';request-id:'' @ ''req-1''
                                        @ '';ts:'' @ ''1700000000'' @ '';''))"
    by (simp add: zero_digest_def)
  show ?thesis
    using validateWebhookSignature_length_mismatch_throws
            [where secret = "''s3cret''" and sig = "''ts=1700000000,v1=abc''"
               and rid = "''req-1''" and ts = "''1700000000''" and ?v1.0 = "''abc''"
               and hmac = zero_digest and dataId = "''12345''"]
          ts v1 len
    by simp
qed

end
